theory Spec2Isabelle
  imports Complex_Main "HOL-Library.Multiset"
begin

section \<open>Data model\<close>

text \<open>
  The tables of \<^verbatim>\<open>movies/models.py\<close> and \<^verbatim>\<open>bookings/models.py\<close> that the booking
  lifecycle reads and writes. Primary keys (UUIDs) and the random reference codes are
  natural numbers; a new key is an argument of the operation that inserts the row,
  since \<^verbatim>\<open>uuid.uuid4\<close> is drawn outside the program's control. \<^verbatim>\<open>Decimal\<close> amounts are
  rationals: the code only adds, subtracts, multiplies, divides by 100 and rounds
  them, all exact on \<^verbatim>\<open>Decimal\<close> within its 28 digits. A point in time is a number of
  seconds, and \<^verbatim>\<open>timezone.now()\<close> is the argument \<open>now\<close> of each request. Text is a
  list of characters; the length bounds of the code count characters, so the model
  reads them as the code does on ASCII text.
\<close>

datatype seat_kind = Regular | Premium | Recliner | Couple

record seat =
  seat_id :: nat
  seat_screen :: nat
  seat_type :: seat_kind
  is_available :: bool
  is_blocked :: bool

record showtime =
  showtime_id :: nat
  showtime_screen :: nat
  show_datetime :: int
  base_price :: rat
  premium_price :: rat
  recliner_price :: rat
  showtime_is_active :: bool

datatype booking_state = Pending | Confirmed | Cancelled | Expired | Failed

record booking =
  booking_id :: nat
  booking_user :: nat
  booking_showtime :: nat
  subtotal :: rat
  tax_amount :: rat
  convenience_fee :: rat
  total_amount :: rat
  booking_status :: booking_state
  expires_at :: int
  confirmed_at :: "int option"
  cancelled_at :: "int option"
  special_requests :: string

datatype gateway_name = Razorpay | Stripe | Paytm | PhonePe | GPay

datatype transaction_state =
  TxInitiated | TxPending | TxSuccess | TxFailed | TxCancelled | TxRefunded

record txn =
  txn_pk :: nat
  txn_booking :: nat
  transaction_id :: nat
  gateway :: gateway_name
  gateway_transaction_id :: string
  reference_id :: string
  amount :: rat
  txn_status :: transaction_state
  completed_at :: "int option"
  failure_reason :: string

text \<open>
  \<^verbatim>\<open>BookingHistory.previous_status\<close> is a string column; the empty string that marks a
  creation entry is \<open>None\<close>.
\<close>

record history_row =
  history_booking :: nat
  previous_status :: "booking_state option"
  new_status :: booking_state
  changed_by :: "nat option"
  reason :: string

datatype refund_state = RfInitiated | RfProcessing | RfCompleted | RfFailed

record refund =
  refund_pk :: nat
  refund_booking :: nat
  refund_transaction :: nat
  refund_total :: rat
  refund_amount :: rat
  cancellation_fee :: rat
  refund_status :: refund_state
  refund_reason :: string

record policy =
  policy_name :: string
  hours_before_show :: nat
  cancellation_fee_percentage :: rat
  is_refundable :: bool
  policy_is_active :: bool

text \<open>
  The Celery calls (\<^verbatim>\<open>task.delay(...)\<close>, \<^verbatim>\<open>task.apply_async(eta=...)\<close>) append to a queue;
  \<^verbatim>\<open>send_booking_confirmation\<close> and \<^verbatim>\<open>send_cancellation_confirmation\<close> each send one
  e-mail and insert one \<^verbatim>\<open>BookingNotification\<close> row when they run, and
  \<^verbatim>\<open>process_refund\<close> is the hand-over of a refund to the payment gateway.
\<close>

datatype task =
  Send_booking_confirmation nat
  | Send_cancellation_confirmation nat
  | Process_refund nat
  | Send_show_reminders int

text \<open>
  The many-to-many relation \<^verbatim>\<open>Booking.seats\<close> is its own table of pairs
  (booking, seat), as in the database.
\<close>

record db =
  seats :: "seat list"
  showtimes :: "showtime list"
  bookings :: "booking list"
  booking_seats :: "(nat \<times> nat) list"
  transactions :: "txn list"
  history :: "history_row list"
  refunds :: "refund list"
  policies :: "policy list"
  outbox :: "task list"

datatype exn =
  Http404
  | DoesNotExist
  | MultipleObjectsReturned
  | IntegrityError
  | ValidationError string
  | NameError string
  | ValueError string

text \<open>A view's \<^verbatim>\<open>Response\<close>: the HTTP status and the message or error text.\<close>

datatype response = Response nat string

section \<open>Query helpers\<close>

text \<open>\<^verbatim>\<open>Model.objects.get(...)\<close>: exactly one row, or an exception.\<close>

definition objects_get :: "('a \<Rightarrow> bool) \<Rightarrow> 'a list \<Rightarrow> exn + 'a" where
  "objects_get P rows =
     (case filter P rows of
        [] \<Rightarrow> Inl DoesNotExist
      | [x] \<Rightarrow> Inr x
      | _ \<Rightarrow> Inl MultipleObjectsReturned)"

definition get_object_or_404 :: "('a \<Rightarrow> bool) \<Rightarrow> 'a list \<Rightarrow> exn + 'a" where
  "get_object_or_404 P rows =
     (case objects_get P rows of
        Inl DoesNotExist \<Rightarrow> Inl Http404
      | Inl e \<Rightarrow> Inl e
      | Inr x \<Rightarrow> Inr x)"

text \<open>\<^verbatim>\<open>booking.seats.all()\<close>: the seat keys related to a booking.\<close>

definition seats_of :: "db \<Rightarrow> nat \<Rightarrow> nat list" where
  "seats_of d bid = map snd (filter (\<lambda>p. fst p = bid) (booking_seats d))"

text \<open>\<^verbatim>\<open>booking.seats.update(is_available=v)\<close>.\<close>

definition mark_seats :: "nat \<Rightarrow> bool \<Rightarrow> db \<Rightarrow> db" where
  "mark_seats bid v d =
     d\<lparr>seats := map (\<lambda>s. if seat_id s \<in> set (seats_of d bid) then s\<lparr>is_available := v\<rparr> else s)
                   (seats d)\<rparr>"

text \<open>\<^verbatim>\<open>booking.seats.set(objs)\<close>: the booking's pairs are replaced by the given seats.\<close>

definition seats_set :: "nat \<Rightarrow> nat list \<Rightarrow> db \<Rightarrow> db" where
  "seats_set bid sids d =
     d\<lparr>booking_seats := filter (\<lambda>p. fst p \<noteq> bid) (booking_seats d) @ map (Pair bid) sids\<rparr>"

definition enqueue :: "task \<Rightarrow> db \<Rightarrow> db" where
  "enqueue t d = d\<lparr>outbox := outbox d @ [t]\<rparr>"

definition history_create :: "history_row \<Rightarrow> db \<Rightarrow> db" where
  "history_create h d = d\<lparr>history := history d @ [h]\<rparr>"

text \<open>\<^verbatim>\<open>Model.save()\<close> below the signals: update the row with this key, or insert it.\<close>

definition write_booking :: "booking \<Rightarrow> db \<Rightarrow> db" where
  "write_booking b d =
     d\<lparr>bookings :=
         (if booking_id b \<in> set (map booking_id (bookings d))
          then map (\<lambda>r. if booking_id r = booking_id b then b else r) (bookings d)
          else bookings d @ [b])\<rparr>"

definition write_txn :: "txn \<Rightarrow> db \<Rightarrow> db" where
  "write_txn t d =
     d\<lparr>transactions :=
         (if txn_pk t \<in> set (map txn_pk (transactions d))
          then map (\<lambda>r. if txn_pk r = txn_pk t then t else r) (transactions d)
          else transactions d @ [t])\<rparr>"

section \<open>Signals (bookings/signals.py)\<close>

text \<open>
  The receivers of \<^verbatim>\<open>bookings/signals.py\<close> run only if that module is imported when
  the application starts, which is the business of the application's configuration
  and not of the code modelled here. Every operation therefore takes a flag \<open>sig\<close>:
  whether the receivers are connected.

  \<^verbatim>\<open>Booking.save()\<close> with the receivers connected: \<^verbatim>\<open>track_booking_status_change\<close>
  (pre-save) compares the stored status with the instance's; after the write come, in
  the order of their registration, \<^verbatim>\<open>create_booking_history\<close>,
  \<^verbatim>\<open>handle_booking_confirmation\<close> and \<^verbatim>\<open>handle_booking_cancellation\<close>. The two
  handlers save one column again (\<^verbatim>\<open>update_fields\<close>); in that inner save the status
  equals the stored one and the timestamp is set, so of its receivers only the seat
  release of \<^verbatim>\<open>handle_booking_cancellation\<close> acts, a second time.
\<close>

definition status_str :: "booking_state \<Rightarrow> string" where
  "status_str s =
     (case s of Pending \<Rightarrow> ''pending'' | Confirmed \<Rightarrow> ''confirmed''
      | Cancelled \<Rightarrow> ''cancelled'' | Expired \<Rightarrow> ''expired'' | Failed \<Rightarrow> ''failed'')"

definition create_booking_history :: "booking option \<Rightarrow> booking \<Rightarrow> db \<Rightarrow> db" where
  "create_booking_history old inst d =
     (case old of
        None \<Rightarrow>
          history_create \<lparr>history_booking = booking_id inst, previous_status = None,
            new_status = booking_status inst, changed_by = None,
            reason = ''Booking created''\<rparr> d
      | Some prev \<Rightarrow>
          if booking_status prev \<noteq> booking_status inst
          then history_create \<lparr>history_booking = booking_id inst,
                 previous_status = Some (booking_status prev),
                 new_status = booking_status inst, changed_by = None,
                 reason = ''Status changed from '' @ status_str (booking_status prev) @ '' to ''
                            @ status_str (booking_status inst)\<rparr> d
          else d)"

text \<open>
  The show time read by \<^verbatim>\<open>handle_booking_confirmation\<close> is that of the booking's
  showtime row; the foreign key guarantees the row, and without one no reminder is
  scheduled.
\<close>

definition show_datetime_of :: "db \<Rightarrow> booking \<Rightarrow> int option" where
  "show_datetime_of d b =
     (case filter (\<lambda>s. showtime_id s = booking_showtime b) (showtimes d) of
        [] \<Rightarrow> None
      | s # _ \<Rightarrow> Some (show_datetime s))"

definition handle_booking_confirmation :: "int \<Rightarrow> booking \<Rightarrow> db \<Rightarrow> db \<times> booking" where
  "handle_booking_confirmation now inst d =
     (if booking_status inst = Confirmed \<and> confirmed_at inst = None
      then let inst' = inst\<lparr>confirmed_at := Some now\<rparr>;
               d1 = write_booking inst' d
           in (case show_datetime_of d1 inst' of
                 None \<Rightarrow> (d1, inst')
               | Some show_at \<Rightarrow>
                   let reminder_time = show_at - 4 * 3600
                   in (if now < reminder_time
                       then enqueue (Send_show_reminders reminder_time) d1 else d1,
                       inst'))
      else (d, inst))"

definition handle_booking_cancellation :: "int \<Rightarrow> booking \<Rightarrow> db \<Rightarrow> db \<times> booking" where
  "handle_booking_cancellation now inst d =
     (if booking_status inst = Cancelled
      then let d1 = mark_seats (booking_id inst) True d
           in (if cancelled_at inst = None
               then let inst' = inst\<lparr>cancelled_at := Some now\<rparr>
                    in (mark_seats (booking_id inst) True (write_booking inst' d1), inst')
               else (d1, inst))
      else (d, inst))"

definition booking_save :: "bool \<Rightarrow> int \<Rightarrow> booking \<Rightarrow> db \<Rightarrow> db \<times> booking" where
  "booking_save sig now inst d =
     (let old = (case filter (\<lambda>r. booking_id r = booking_id inst) (bookings d) of
                   [] \<Rightarrow> None | r # _ \<Rightarrow> Some r);
          d1 = write_booking inst d
      in if \<not> sig then (d1, inst)
         else
           let d2 = create_booking_history old inst d1;
               (d3, inst3) = handle_booking_confirmation now inst d2
           in handle_booking_cancellation now inst3 d3)"

section \<open>Pricing and booking creation (bookings/serializers.py)\<close>

text \<open>\<^verbatim>\<open>Showtime.get_price_for_seat\<close>.\<close>

definition get_price_for_seat :: "showtime \<Rightarrow> seat \<Rightarrow> rat" where
  "get_price_for_seat st s =
     (if seat_type s = Recliner then recliner_price st
      else if seat_type s = Premium then premium_price st
      else base_price st)"

text \<open>
  \<^verbatim>\<open>round(x, n)\<close> on a \<^verbatim>\<open>Decimal\<close> is \<^verbatim>\<open>x.quantize(Decimal(10) ** -n)\<close> in the default
  context, which rounds half to even.
\<close>

definition round_half_even :: "rat \<Rightarrow> int" where
  "round_half_even x =
     (let f = \<lfloor>x\<rfloor>; r = x - of_int f
      in if r < 1 / 2 then f
         else if 1 / 2 < r then f + 1
         else if even f then f else f + 1)"

definition decimal_round :: "rat \<Rightarrow> nat \<Rightarrow> rat" where
  "decimal_round x n = of_int (round_half_even (x * 10 ^ n)) / 10 ^ n"

text \<open>The queryset of \<^verbatim>\<open>BookingCreateSerializer.create\<close>, lines 75 to 80.\<close>

definition lockable :: "showtime \<Rightarrow> nat list \<Rightarrow> seat \<Rightarrow> bool" where
  "lockable st seat_ids s \<longleftrightarrow>
     seat_id s \<in> set seat_ids \<and> seat_screen s = showtime_screen st
     \<and> is_available s \<and> \<not> is_blocked s"

text \<open>
  \<^verbatim>\<open>BookingCreateSerializer.create\<close>. An exception leaves the function without a new
  state: the \<^verbatim>\<open>@transaction.atomic\<close> around it rolls every write back.
  \<^verbatim>\<open>Booking.objects.create\<close> inserts, so a key already in the table is an
  \<^verbatim>\<open>IntegrityError\<close>.
\<close>

definition BookingCreateSerializer_create ::
  "bool \<Rightarrow> int \<Rightarrow> nat \<Rightarrow> nat \<Rightarrow> nat \<Rightarrow> nat list \<Rightarrow> string \<Rightarrow> db \<Rightarrow> exn + (db \<times> booking)" where
  "BookingCreateSerializer_create sig now new_id user st_id seat_ids special d =
     (case objects_get (\<lambda>s. showtime_id s = st_id) (showtimes d) of
        Inl e \<Rightarrow> Inl e
      | Inr st \<Rightarrow>
          let chosen = filter (lockable st seat_ids) (seats d)
          in if length chosen \<noteq> length seat_ids
             then Inl (ValidationError ''Some seats are no longer available'')
             else if new_id \<in> set (map booking_id (bookings d)) then Inl IntegrityError
             else
               let sub = sum_list (map (get_price_for_seat st) chosen);
                   tax = decimal_round (sub * (18 / 100)) 2;
                   fee = 20;
                   total = sub + tax + fee;
                   b = \<lparr>booking_id = new_id, booking_user = user, booking_showtime = st_id,
                        subtotal = sub, tax_amount = tax, convenience_fee = fee,
                        total_amount = total, booking_status = Pending,
                        expires_at = now + 15 * 60, confirmed_at = None,
                        cancelled_at = None, special_requests = special\<rparr>;
                   (d1, b1) = booking_save sig now b d;
                   d2 = seats_set new_id (map seat_id chosen) d1;
                   d3 = d2\<lparr>seats := map (\<lambda>s. if lockable st seat_ids s
                                             then s\<lparr>is_available := False\<rparr> else s) (seats d2)\<rparr>
               in Inr (d3, b1))"

text \<open>\<^verbatim>\<open>serializer.save()\<close> as the caller sees it: the new state, or the old one.\<close>

definition serializer_save ::
  "bool \<Rightarrow> int \<Rightarrow> nat \<Rightarrow> nat \<Rightarrow> nat \<Rightarrow> nat list \<Rightarrow> string \<Rightarrow> db \<Rightarrow> db \<times> (exn + booking)" where
  "serializer_save sig now new_id user st_id seat_ids special d =
     (case BookingCreateSerializer_create sig now new_id user st_id seat_ids special d of
        Inl e \<Rightarrow> (d, Inl e)
      | Inr (d', b) \<Rightarrow> (d', Inr b))"

text \<open>
  \<^verbatim>\<open>BookingCreateSerializer.validate_seat_ids\<close>, which \<^verbatim>\<open>serializer.is_valid()\<close> calls
  for the field \<^verbatim>\<open>seat_ids\<close>. Its second query is built from \<^verbatim>\<open>models.Q(...)\<close>, and
  \<^verbatim>\<open>bookings/serializers.py\<close> binds no name \<^verbatim>\<open>models\<close>: its imports are
  \<^verbatim>\<open>serializers\<close>, \<^verbatim>\<open>transaction\<close>, \<^verbatim>\<open>timezone\<close>, \<^verbatim>\<open>timedelta\<close>, \<^verbatim>\<open>Decimal\<close>, the five
  booking models, \<^verbatim>\<open>Showtime\<close>, \<^verbatim>\<open>Seat\<close> and two serializers. Evaluating the
  argument of \<^verbatim>\<open>seats.filter\<close> on line 54 therefore raises \<^verbatim>\<open>NameError\<close>, which the field
  validation of the framework does not catch.
\<close>

definition validate_seat_ids :: "nat \<Rightarrow> nat list \<Rightarrow> db \<Rightarrow> exn + nat list" where
  "validate_seat_ids st_id val d =
     (case objects_get (\<lambda>s. showtime_id s = st_id) (showtimes d) of
        Inl e \<Rightarrow> Inl e
      | Inr st \<Rightarrow>
          let found = filter (\<lambda>s. seat_id s \<in> set val \<and> seat_screen s = showtime_screen st)
                        (seats d)
          in if length found \<noteq> length val
             then Inl (ValidationError
                    ''Some seats do not exist or don't belong to this screen'')
             else Inl (NameError ''models''))"

text \<open>
  \<^verbatim>\<open>serializer.is_valid(raise_exception=True)\<close> for the creation serializer: the
  list field's length bounds (\<^verbatim>\<open>min_length=1\<close>, \<^verbatim>\<open>max_length=10\<close>), then the field's
  validator.
\<close>

definition create_is_valid :: "nat \<Rightarrow> nat list \<Rightarrow> db \<Rightarrow> exn + nat list" where
  "create_is_valid st_id seat_ids d =
     (if length seat_ids < 1 then Inl (ValidationError ''seat_ids: min_length'')
      else if 10 < length seat_ids then Inl (ValidationError ''seat_ids: max_length'')
      else validate_seat_ids st_id seat_ids d)"

section \<open>Views (bookings/views.py)\<close>

text \<open>
  A view returns the new state and either the \<^verbatim>\<open>Response\<close> it built or the exception
  that left it (\<^verbatim>\<open>Http404\<close> and \<^verbatim>\<open>ValidationError\<close> become 404 and 400 answers in the
  framework, anything else a 500).

  The part of \<^verbatim>\<open>CreateBookingView.create\<close> after validation, lines 57 to 71:
  \<^verbatim>\<open>serializer.save()\<close> and the view's own history entry.
\<close>

definition CreateBookingView_save_and_log ::
  "bool \<Rightarrow> int \<Rightarrow> nat \<Rightarrow> nat \<Rightarrow> nat \<Rightarrow> nat list \<Rightarrow> string \<Rightarrow> db \<Rightarrow> db \<times> (exn + response)" where
  "CreateBookingView_save_and_log sig now new_id user st_id seat_ids special d =
     (case serializer_save sig now new_id user st_id seat_ids special d of
        (d', Inl e) \<Rightarrow> (d', Inl e)
      | (d', Inr b) \<Rightarrow>
          (history_create \<lparr>history_booking = booking_id b, previous_status = None,
             new_status = Pending, changed_by = Some user, reason = ''Booking created''\<rparr> d',
           Inr (Response 201 ''Booking created successfully'')))"

definition CreateBookingView_create ::
  "bool \<Rightarrow> int \<Rightarrow> nat \<Rightarrow> nat \<Rightarrow> nat \<Rightarrow> nat list \<Rightarrow> string \<Rightarrow> db \<Rightarrow> db \<times> (exn + response)" where
  "CreateBookingView_create sig now new_id user st_id seat_ids special d =
     (case get_object_or_404 (\<lambda>s. showtime_id s = st_id) (showtimes d) of
        Inl e \<Rightarrow> (d, Inl e)
      | Inr st \<Rightarrow>
          if \<not> showtime_is_active st
          then (d, Inr (Response 400 ''This showtime is not available for booking''))
          else if show_datetime st \<le> now
          then (d, Inr (Response 400 ''Cannot book seats for past showtimes''))
          else (case create_is_valid st_id seat_ids d of
                  Inl e \<Rightarrow> (d, Inl e)
                | Inr ids \<Rightarrow>
                    CreateBookingView_save_and_log sig now new_id user st_id ids special d))"

text \<open>
  \<^verbatim>\<open>Transaction.save()\<close> with its two receivers, \<^verbatim>\<open>handle_successful_payment\<close> and
  \<^verbatim>\<open>handle_failed_payment\<close>. The argument \<open>bk\<close> is \<^verbatim>\<open>instance.booking\<close> as the
  receivers see it: the object cached on the transaction where the caller has read
  it, a fresh copy of the row otherwise. The receivers change and save that object;
  it is returned beside the state.
\<close>

definition handle_successful_payment :: "int \<Rightarrow> txn \<Rightarrow> booking \<Rightarrow> db \<Rightarrow> db \<times> booking" where
  "handle_successful_payment now t bk d =
     (if txn_status t = TxSuccess \<and> booking_status bk = Pending
      then let (d1, bk1) =
                 booking_save True now (bk\<lparr>booking_status := Confirmed, confirmed_at := Some now\<rparr>) d
           in (enqueue (Send_booking_confirmation (booking_id bk1)) d1, bk1)
      else (d, bk))"

definition handle_failed_payment :: "int \<Rightarrow> txn \<Rightarrow> booking \<Rightarrow> db \<Rightarrow> db \<times> booking" where
  "handle_failed_payment now t bk d =
     (if txn_status t = TxFailed
      then if filter (\<lambda>r. txn_booking r = booking_id bk \<and> txn_status r = TxSuccess)
                (transactions d) = []
           then let d1 = mark_seats (booking_id bk) True d
                in if now < expires_at bk
                   then booking_save True now (bk\<lparr>expires_at := now + 15 * 60\<rparr>) d1
                   else (d1, bk)
           else (d, bk)
      else (d, bk))"

definition transaction_save :: "bool \<Rightarrow> int \<Rightarrow> txn \<Rightarrow> booking \<Rightarrow> db \<Rightarrow> db \<times> booking" where
  "transaction_save sig now t bk d =
     (let d1 = write_txn t d
      in if \<not> sig then (d1, bk)
         else let (d2, bk2) = handle_successful_payment now t bk d1
              in handle_failed_payment now t bk2 d2)"

text \<open>\<^verbatim>\<open>PaymentGatewayFactory.get_gateway\<close>: two of the five gateway choices are registered.\<close>

definition get_gateway :: "gateway_name \<Rightarrow> exn + gateway_name" where
  "get_gateway g =
     (if g = Razorpay \<or> g = Stripe then Inr g
      else Inl (ValueError ''Unsupported payment gateway''))"

text \<open>
  The dictionary \<^verbatim>\<open>payment_data\<close> that a gateway's \<^verbatim>\<open>create_order\<close> returns, by its
  keys. A value is a string, a \<^verbatim>\<open>Decimal\<close>, or something else that JSON can hold (a
  setting, a dictionary of strings). Both gateways put \<^verbatim>\<open>transaction.amount\<close>, the
  \<^verbatim>\<open>Decimal\<close> of the model field, under \<^verbatim>\<open>amount\<close> (lines 61 and 199 of
  \<^verbatim>\<open>bookings/utils/payment.py\<close>). The argument \<open>oid\<close> is the identifier that the
  gateway's API gave the new order or payment intent.
\<close>

datatype pyval = PyStr string | PyDecimal rat | PyJson

definition create_order :: "gateway_name \<Rightarrow> txn \<Rightarrow> string \<Rightarrow> (string \<times> pyval) list" where
  "create_order g t oid =
     (if g = Razorpay
      then [(''order_id'', PyStr oid), (''key_id'', PyJson), (''amount'', PyDecimal (amount t)),
            (''currency'', PyStr ''INR''), (''name'', PyStr ''Movie Booking AI''),
            (''description'', PyJson), (''prefill'', PyJson), (''notes'', PyJson),
            (''theme'', PyJson)]
      else [(''client_secret'', PyJson), (''payment_intent_id'', PyStr oid),
            (''publishable_key'', PyJson), (''amount'', PyDecimal (amount t)),
            (''currency'', PyStr ''INR'')])"

text \<open>
  \<^verbatim>\<open>Transaction.gateway_response\<close> is a \<^verbatim>\<open>JSONField\<close> with the default encoder: saving
  the row serialises the value with \<^verbatim>\<open>json.dumps\<close>, which raises \<^verbatim>\<open>TypeError\<close> on a
  \<^verbatim>\<open>Decimal\<close>.
\<close>

definition json_serializable :: "(string \<times> pyval) list \<Rightarrow> bool" where
  "json_serializable data =
     (filter (\<lambda>kv. case snd kv of PyDecimal x \<Rightarrow> True | _ \<Rightarrow> False) data = [])"

text \<open>
  \<^verbatim>\<open>InitiatePaymentView.create\<close>. The argument \<open>order\<close> is what the gateway's API did
  inside \<^verbatim>\<open>create_order\<close>: \<open>None\<close> when the call raised, otherwise the identifier it
  returned. \<open>new_pk\<close> and \<open>new_tid\<close> are the new row's key and generated
  \<^verbatim>\<open>transaction_id\<close>. The view is not atomic: the row inserted by
  \<^verbatim>\<open>Transaction.objects.create\<close> stays when a later statement raises and the view
  answers 500. The last save writes \<^verbatim>\<open>reference_id\<close> (a non-null column, so the value
  of \<^verbatim>\<open>payment_data.get('order_id')\<close> must be a string) and \<^verbatim>\<open>gateway_response\<close>.
\<close>

definition InitiatePaymentView_create ::
  "bool \<Rightarrow> int \<Rightarrow> nat \<Rightarrow> nat \<Rightarrow> nat \<Rightarrow> nat \<Rightarrow> gateway_name \<Rightarrow> string option \<Rightarrow> db
    \<Rightarrow> db \<times> (exn + response)" where
  "InitiatePaymentView_create sig now new_pk new_tid user bid gw order d =
     (case get_object_or_404 (\<lambda>b. booking_id b = bid \<and> booking_user b = user) (bookings d) of
        Inl e \<Rightarrow> (d, Inl e)
      | Inr booking \<Rightarrow>
          if booking_status booking \<noteq> Pending
          then (d, Inr (Response 400 ''Payment can only be made for pending bookings''))
          else if expires_at booking \<le> now
          then let (d1, b1) = booking_save sig now (booking\<lparr>booking_status := Expired\<rparr>) d;
                   d2 = mark_seats (booking_id b1) True d1
               in (d2, Inr (Response 400 ''Booking has expired''))
          else if new_pk \<in> set (map txn_pk (transactions d))
                  \<or> new_tid \<in> set (map transaction_id (transactions d))
          then (d, Inr (Response 500 ''Payment initiation failed. Please try again.''))
          else
            let t = \<lparr>txn_pk = new_pk, txn_booking = booking_id booking, transaction_id = new_tid,
                     gateway = gw, gateway_transaction_id = [], reference_id = [],
                     amount = total_amount booking, txn_status = TxInitiated,
                     completed_at = None, failure_reason = []\<rparr>;
                (d1, bk1) = transaction_save sig now t booking d
            in (case get_gateway gw of
                  Inl e \<Rightarrow> (d1, Inr (Response 500 ''Payment initiation failed. Please try again.''))
                | Inr g \<Rightarrow>
                    (case order of
                       None \<Rightarrow>
                         (d1, Inr (Response 500 ''Payment initiation failed. Please try again.''))
                     | Some oid \<Rightarrow>
                         let payment_data = create_order g t oid
                         in (case map_of payment_data ''order_id'' of
                               Some (PyStr ref) \<Rightarrow>
                                 if json_serializable payment_data
                                 then let (d2, bk2) =
                                            transaction_save sig now (t\<lparr>reference_id := ref\<rparr>) bk1 d1
                                      in (d2, Inr (Response 200 ''payment_data''))
                                 else (d1, Inr (Response 500
                                         ''Payment initiation failed. Please try again.''))
                             | _ \<Rightarrow>
                                 (d1, Inr (Response 500
                                    ''Payment initiation failed. Please try again.''))))))"

text \<open>
  \<^verbatim>\<open>ConfirmPaymentView.update\<close>. \<open>verified\<close> is the answer of the gateway's
  \<^verbatim>\<open>verify_payment\<close>. The receivers of the transaction read \<^verbatim>\<open>instance.booking\<close> from
  the database, a second object: what they do to it does not reach the view's
  \<^verbatim>\<open>booking\<close>, which the view then changes and saves itself.
\<close>

definition ConfirmPaymentView_update ::
  "bool \<Rightarrow> int \<Rightarrow> nat \<Rightarrow> nat \<Rightarrow> nat \<Rightarrow> string \<Rightarrow> bool \<Rightarrow> db \<Rightarrow> db \<times> (exn + response)" where
  "ConfirmPaymentView_update sig now user bid tid gtid verified d =
     (case get_object_or_404 (\<lambda>b. booking_id b = bid \<and> booking_user b = user) (bookings d) of
        Inl e \<Rightarrow> (d, Inl e)
      | Inr booking \<Rightarrow>
          (case objects_get (\<lambda>t. transaction_id t = tid \<and> txn_booking t = booking_id booking)
                  (transactions d) of
             Inl DoesNotExist \<Rightarrow> (d, Inr (Response 400 ''Invalid transaction''))
           | Inl e \<Rightarrow>
               (d, Inr (Response 500 ''Payment confirmation failed. Please contact support.''))
           | Inr t \<Rightarrow>
               (case get_gateway (gateway t) of
                  Inl e \<Rightarrow>
                    (d, Inr (Response 500 ''Payment confirmation failed. Please contact support.''))
                | Inr g \<Rightarrow>
                    if verified
                    then
                      let t1 = t\<lparr>txn_status := TxSuccess, gateway_transaction_id := gtid,
                                  completed_at := Some now\<rparr>;
                          (d1, bk1) = transaction_save sig now t1 booking d;
                          b1 = booking\<lparr>booking_status := Confirmed, confirmed_at := Some now\<rparr>;
                          (d2, b2) = booking_save sig now b1 d1;
                          d3 = history_create
                                 \<lparr>history_booking = booking_id b2, previous_status = Some Pending,
                                  new_status = Confirmed, changed_by = Some user,
                                  reason = ''Payment completed successfully''\<rparr> d2;
                          d4 = enqueue (Send_booking_confirmation (booking_id b2)) d3
                      in (d4, Inr (Response 200 ''Payment confirmed successfully''))
                    else
                      let t1 = t\<lparr>txn_status := TxFailed,
                                  failure_reason := ''Payment verification failed''\<rparr>;
                          (d1, bk1) = transaction_save sig now t1 booking d
                      in (d1, Inr (Response 400 ''Payment verification failed'')))))"

section \<open>Cancellation (bookings/models.py, serializers.py, views.py)\<close>

text \<open>
  \<^verbatim>\<open>CancellationPolicy.get_applicable_policy\<close>: the active policies whose threshold is at
  most the given number of hours, by descending threshold, and the first of them. The
  hours are a quotient of seconds, a float in the code and a rational here. The
  column \<^verbatim>\<open>hours_before_show\<close> is a \<^verbatim>\<open>PositiveIntegerField\<close>, and the value of a lookup
  on an integer column is prepared with \<^verbatim>\<open>int(value)\<close>, which cuts the fraction off
  toward zero: the comparison \<^verbatim>\<open>hours_before_show__lte\<close> is made with that integer.
\<close>

definition py_int :: "rat \<Rightarrow> int" where
  "py_int x = (if 0 \<le> x then \<lfloor>x\<rfloor> else \<lceil>x\<rceil>)"

definition get_applicable_policy :: "rat \<Rightarrow> policy list \<Rightarrow> policy option" where
  "get_applicable_policy h ps =
     (case sort_key (\<lambda>p. - int (hours_before_show p))
             (filter (\<lambda>p. int (hours_before_show p) \<le> py_int h \<and> policy_is_active p) ps) of
        [] \<Rightarrow> None
      | p # _ \<Rightarrow> Some p)"

text \<open>\<^verbatim>\<open>BookingCancelSerializer.validate\<close>.\<close>

definition BookingCancelSerializer_validate :: "int \<Rightarrow> booking \<Rightarrow> db \<Rightarrow> exn + policy" where
  "BookingCancelSerializer_validate now booking d =
     (if booking_status booking \<noteq> Confirmed \<and> booking_status booking \<noteq> Pending
      then Inl (ValidationError ''This booking cannot be cancelled'')
      else
        (case objects_get (\<lambda>s. showtime_id s = booking_showtime booking) (showtimes d) of
           Inl e \<Rightarrow> Inl e
         | Inr st \<Rightarrow>
             let hours_before = of_int (show_datetime st - now) / 3600
             in (case get_applicable_policy hours_before (policies d) of
                   None \<Rightarrow> Inl (ValidationError ''Cancellation not allowed at this time'')
                 | Some pol \<Rightarrow>
                     if \<not> is_refundable pol
                     then Inl (ValidationError ''Cancellation not allowed at this time'')
                     else Inr pol)))"

text \<open>
  \<^verbatim>\<open>str.strip()\<close>: the white space of ASCII text is cut off at both ends.
\<close>

definition is_space :: "char \<Rightarrow> bool" where
  "is_space c \<longleftrightarrow>
     c \<in> set [CHR 0x09, CHR 0x0A, CHR 0x0B, CHR 0x0C, CHR 0x0D, CHR 0x1C, CHR 0x1D, CHR 0x1E,
              CHR 0x1F, CHR 0x20]"

definition strip :: "string \<Rightarrow> string" where
  "strip s = rev (dropWhile is_space (rev (dropWhile is_space s)))"

text \<open>
  \<^verbatim>\<open>serializer.is_valid(raise_exception=True)\<close> for the cancellation serializer. The
  field \<^verbatim>\<open>reason\<close> is a \<^verbatim>\<open>CharField(max_length=500)\<close>: required, its value trimmed of
  white space (\<^verbatim>\<open>trim_whitespace\<close> is on by default), refused when nothing is left
  (\<^verbatim>\<open>allow_blank\<close> is off), and then by the field's validators when more than 500
  characters are left or a null character is among them. The error of the field is
  a \<^verbatim>\<open>ValidationError\<close> under the field's name. Then comes \<^verbatim>\<open>validate\<close>. The validated
  reason is the trimmed text.
\<close>

definition cancel_is_valid :: "int \<Rightarrow> booking \<Rightarrow> string \<Rightarrow> db \<Rightarrow> exn + (policy \<times> string)" where
  "cancel_is_valid now booking why d =
     (let trimmed = strip why
      in if trimmed = [] then Inl (ValidationError ''reason'')
         else if 500 < length trimmed \<or> CHR 0x00 \<in> set trimmed
         then Inl (ValidationError ''reason'')
         else (case BookingCancelSerializer_validate now booking d of
                 Inl e \<Rightarrow> Inl e
               | Inr pol \<Rightarrow> Inr (pol, trimmed)))"

text \<open>
  \<^verbatim>\<open>CancelBookingView.update\<close>. The test on line 313 reads \<^verbatim>\<open>booking.status\<close> after
  line 296 has assigned it; it is written here as the code has it.
\<close>

definition CancelBookingView_update ::
  "bool \<Rightarrow> int \<Rightarrow> nat \<Rightarrow> nat \<Rightarrow> nat \<Rightarrow> string \<Rightarrow> db \<Rightarrow> db \<times> (exn + response)" where
  "CancelBookingView_update sig now new_refund user bid why d =
     (case get_object_or_404 (\<lambda>b. booking_id b = bid \<and> booking_user b = user) (bookings d) of
        Inl e \<Rightarrow> (d, Inl e)
      | Inr booking \<Rightarrow>
          (case cancel_is_valid now booking why d of
             Inl e \<Rightarrow> (d, Inl e)
           | Inr (pol, reason_text) \<Rightarrow>
               let cancellation_fee_amount =
                     (total_amount booking * cancellation_fee_percentage pol) / 100;
                   refund_amt = total_amount booking - cancellation_fee_amount;
                   previous = booking_status booking;
                   b1 = booking\<lparr>booking_status := Cancelled, cancelled_at := Some now\<rparr>;
                   (d1, b2) = booking_save sig now b1 d;
                   d2 = mark_seats (booking_id b2) True d1;
                   d3 = history_create
                          \<lparr>history_booking = booking_id b2, previous_status = Some previous,
                           new_status = Cancelled, changed_by = Some user,
                           reason = reason_text\<rparr> d2;
                   d4 = (if booking_status b2 = Confirmed
                         then (case filter (\<lambda>t. txn_booking t = booking_id b2
                                                 \<and> txn_status t = TxSuccess) (transactions d3) of
                                 [] \<Rightarrow> d3
                               | t # _ \<Rightarrow>
                                   enqueue (Process_refund new_refund)
                                     (d3\<lparr>refunds := refunds d3 @
                                        [\<lparr>refund_pk = new_refund, refund_booking = booking_id b2,
                                          refund_transaction = txn_pk t,
                                          refund_total = total_amount b2,
                                          refund_amount = refund_amt,
                                          cancellation_fee = cancellation_fee_amount,
                                          refund_status = RfInitiated,
                                          refund_reason = reason_text\<rparr>]\<rparr>))
                         else d3);
                   d5 = enqueue (Send_cancellation_confirmation (booking_id b2)) d4
               in (d5, Inr (Response 200 ''Booking cancelled successfully''))))"

section \<open>Webhook and timer extension (bookings/views.py, bookings/utils/payment.py)\<close>

text \<open>
  The dictionary that a gateway's \<^verbatim>\<open>handle_webhook\<close> returns: \<^verbatim>\<open>success\<close>,
  \<^verbatim>\<open>status\<close>, \<^verbatim>\<open>transaction_id\<close> and \<^verbatim>\<open>failure_reason\<close> (absent keys read as
  \<^verbatim>\<open>None\<close>). \<open>webhook_failure\<close> is every result with \<^verbatim>\<open>'success': False\<close>.
\<close>

datatype webhook_status = WhSuccess | WhFailed | WhOther

record webhook_result =
  wr_success :: bool
  wr_status :: webhook_status
  wr_transaction_id :: "nat option"
  wr_failure_reason :: "string option"

definition webhook_failure :: webhook_result where
  "webhook_failure =
     \<lparr>wr_success = False, wr_status = WhOther, wr_transaction_id = None,
      wr_failure_reason = None\<rparr>"

text \<open>
  The view hands \<^verbatim>\<open>request.data\<close> and \<^verbatim>\<open>request.META\<close> to the gateway.
  \<^verbatim>\<open>request.data\<close> is the parsed body: a string when the body is a JSON string
  literal, otherwise a dictionary, list, number or \<^verbatim>\<open>QueryDict\<close>, none of which has a
  method \<^verbatim>\<open>encode\<close>; reading it raises when the body cannot be parsed.
  \<^verbatim>\<open>request.META\<close> holds a header \<^verbatim>\<open>Name\<close> of the request under the key \<^verbatim>\<open>HTTP_NAME\<close>,
  in upper case with underscores for hyphens, except the content type and length.
\<close>

datatype request_data = Text string | Structured | Unparsable

definition upper_char :: "char \<Rightarrow> char" where
  "upper_char c =
     (let n = (of_char c :: nat)
      in if 97 \<le> n \<and> n \<le> 122 then char_of (n - 32)
         else if c = CHR ''-'' then CHR ''_'' else c)"

definition meta_key :: "string \<Rightarrow> string" where
  "meta_key name =
     (let key = map upper_char name
      in if key = ''CONTENT_TYPE'' \<or> key = ''CONTENT_LENGTH'' then key else ''HTTP_'' @ key)"

definition request_META :: "(string \<times> string) list \<Rightarrow> (string \<times> string) list" where
  "request_META hs = map (\<lambda>kv. (meta_key (fst kv), snd kv)) hs"

text \<open>
  \<^verbatim>\<open>hmac.new(secret, body, hashlib.sha256).hexdigest()\<close>: 64 hexadecimal digits. The
  keyed hash itself is the argument \<open>mac\<close> of the gateway.
\<close>

definition hex_char :: "nat \<Rightarrow> char" where
  "hex_char n = ''0123456789abcdef'' ! (n mod 16)"

fun hex_digits :: "nat \<Rightarrow> nat \<Rightarrow> string" where
  "hex_digits 0 n = []"
| "hex_digits (Suc k) n = hex_digits k (n div 16) @ [hex_char n]"

definition hexdigest :: "nat \<Rightarrow> string" where
  "hexdigest n = hex_digits 64 n"

text \<open>
  \<^verbatim>\<open>RazorpayGateway.handle_webhook\<close>. The signature is read with
  \<^verbatim>\<open>headers.get('X-Razorpay-Signature', '')\<close>; \<^verbatim>\<open>payload.encode\<close> raises on a payload
  that is no string, and every exception is answered with a failure. \<open>event\<close> is
  lines 119 to 140: what \<^verbatim>\<open>json.loads\<close> and the dispatch on the event make of a body
  whose signature was accepted.
\<close>

definition razorpay_handle_webhook ::
  "(string \<Rightarrow> nat) \<Rightarrow> (string \<Rightarrow> webhook_result) \<Rightarrow> request_data \<Rightarrow> (string \<times> string) list
    \<Rightarrow> webhook_result" where
  "razorpay_handle_webhook mac event payload headers =
     (let signature = (case map_of headers ''X-Razorpay-Signature'' of None \<Rightarrow> [] | Some v \<Rightarrow> v)
      in case payload of
           Text body \<Rightarrow>
             if signature \<noteq> hexdigest (mac body) then webhook_failure else event body
         | _ \<Rightarrow> webhook_failure)"

text \<open>
  \<^verbatim>\<open>StripeGateway.handle_webhook\<close>. The signature header is read with
  \<^verbatim>\<open>headers.get('stripe-signature')\<close>; the library's \<^verbatim>\<open>construct_event\<close> checks the
  payload against that header before it builds the event and raises when the header
  is \<^verbatim>\<open>None\<close>. \<open>event\<close> is \<^verbatim>\<open>construct_event\<close> on a header that is present, followed
  by lines 225 to 242.
\<close>

definition stripe_handle_webhook ::
  "(request_data \<Rightarrow> string \<Rightarrow> webhook_result) \<Rightarrow> request_data \<Rightarrow> (string \<times> string) list
    \<Rightarrow> webhook_result" where
  "stripe_handle_webhook event payload headers =
     (case map_of headers ''stripe-signature'' of
        None \<Rightarrow> webhook_failure
      | Some sig_header \<Rightarrow> event payload sig_header)"

text \<open>
  \<^verbatim>\<open>PaymentGatewayFactory.get_gateway\<close> on the query parameter \<^verbatim>\<open>gateway\<close> of the
  webhook, any text.
\<close>

definition get_gateway_named :: "string \<Rightarrow> exn + gateway_name" where
  "get_gateway_named name =
     (if name = ''razorpay'' then Inr Razorpay
      else if name = ''stripe'' then Inr Stripe
      else Inl (ValueError ''Unsupported payment gateway''))"

text \<open>
  \<^verbatim>\<open>payment_webhook\<close>. Every exception is caught and answered with 500. The view reads
  \<^verbatim>\<open>transaction_obj.booking\<close> before it saves, so the transaction's receivers see the
  very object the view has changed. \<open>webhook_tail\<close> is lines 363 to 382: the update
  by the event's status and the two saves. \<open>gw\<close> is the query parameter, \<open>data\<close> the
  parsed body and \<open>hs\<close> the headers of the request.
\<close>

definition webhook_tail :: "bool \<Rightarrow> int \<Rightarrow> webhook_result \<Rightarrow> txn \<Rightarrow> booking \<Rightarrow> db \<Rightarrow> db" where
  "webhook_tail sig now res t booking d =
     (let (t1, b1, d1) =
            (case wr_status res of
               WhSuccess \<Rightarrow>
                 (t\<lparr>txn_status := TxSuccess, completed_at := Some now\<rparr>,
                  booking\<lparr>booking_status := Confirmed, confirmed_at := Some now\<rparr>,
                  enqueue (Send_booking_confirmation (booking_id booking)) d)
             | WhFailed \<Rightarrow>
                 (t\<lparr>txn_status := TxFailed,
                    failure_reason :=
                      (case wr_failure_reason res of
                         None \<Rightarrow> ''Payment failed'' | Some r \<Rightarrow> r)\<rparr>,
                  booking,
                  mark_seats (booking_id booking) True d)
             | WhOther \<Rightarrow> (t, booking, d));
          (d2, b2) = transaction_save sig now t1 b1 d1;
          (d3, b3) = booking_save sig now b2 d2
      in d3)"

definition payment_webhook ::
  "bool \<Rightarrow> int \<Rightarrow> (string \<Rightarrow> nat) \<Rightarrow> (string \<Rightarrow> webhook_result)
    \<Rightarrow> (request_data \<Rightarrow> string \<Rightarrow> webhook_result)
    \<Rightarrow> string option \<Rightarrow> request_data \<Rightarrow> (string \<times> string) list \<Rightarrow> db \<Rightarrow> db \<times> response" where
  "payment_webhook sig now mac razorpay_event stripe_event gw data hs d =
     (case get_gateway_named (case gw of None \<Rightarrow> ''razorpay'' | Some name \<Rightarrow> name) of
        Inl e \<Rightarrow> (d, Response 500 ''error'')
      | Inr g \<Rightarrow>
          if data = Unparsable then (d, Response 500 ''error'')
          else
            let res = (if g = Razorpay
                       then razorpay_handle_webhook mac razorpay_event data (request_META hs)
                       else stripe_handle_webhook stripe_event data (request_META hs))
            in if \<not> wr_success res then (d, Response 200 ''success'')
               else
                 (case wr_transaction_id res of
                    None \<Rightarrow> (d, Response 500 ''error'')
                  | Some tid \<Rightarrow>
                      (case objects_get (\<lambda>t. transaction_id t = tid) (transactions d) of
                         Inl e \<Rightarrow> (d, Response 500 ''error'')
                       | Inr t \<Rightarrow>
                           (case objects_get (\<lambda>b. booking_id b = txn_booking t) (bookings d) of
                              Inl e \<Rightarrow> (d, Response 500 ''error'')
                            | Inr booking \<Rightarrow>
                                (webhook_tail sig now res t booking d,
                                 Response 200 ''success'')))))"

text \<open>
  A model instance in memory: the row it was built from and the names of the
  attributes set on the object beside the model's fields. \<^verbatim>\<open>get_object_or_404\<close> builds
  a new instance from the row in each request; \<^verbatim>\<open>save()\<close> writes the fields.
\<close>

record booking_instance =
  inst_row :: booking
  inst_attrs :: "string list"

definition from_row :: "booking \<Rightarrow> booking_instance" where
  "from_row b = \<lparr>inst_row = b, inst_attrs = []\<rparr>"

definition hasattr :: "booking_instance \<Rightarrow> string \<Rightarrow> bool" where
  "hasattr i name \<longleftrightarrow> name \<in> set (inst_attrs i)"

text \<open>
  \<^verbatim>\<open>extend_booking_timer\<close>. \<^verbatim>\<open>_timer_extended\<close> is no field of the model \<^verbatim>\<open>Booking\<close>; the
  view sets it on the instance of this request, which is dropped when the view
  returns.
\<close>

definition extend_booking_timer :: "bool \<Rightarrow> int \<Rightarrow> nat \<Rightarrow> nat \<Rightarrow> db \<Rightarrow> db \<times> (exn + response)" where
  "extend_booking_timer sig now user bid d =
     (case get_object_or_404
             (\<lambda>b. booking_id b = bid \<and> booking_user b = user \<and> booking_status b = Pending)
             (bookings d) of
        Inl e \<Rightarrow> (d, Inl e)
      | Inr r \<Rightarrow>
          let booking = from_row r
          in if hasattr booking ''_timer_extended''
             then (d, Inr (Response 400 ''Booking timer can only be extended once''))
             else
               let time_remaining = expires_at (inst_row booking) - now
               in if 120 < time_remaining
                  then (d, Inr (Response 400
                          ''Timer extension only available when booking is about to expire''))
                  else
                    let booking1 = booking\<lparr>inst_row := (inst_row booking)\<lparr>expires_at := now + 10 * 60\<rparr>,
                                          inst_attrs := ''_timer_extended'' # inst_attrs booking\<rparr>;
                        (d1, b1) = booking_save sig now (inst_row booking1) d
                    in (d1, Inr (Response 200 ''Booking timer extended successfully'')))"

section \<open>Observations and scenarios\<close>

text \<open>What a reader of the tables sees of a seat, a booking and its history.\<close>

definition seat_row :: "db \<Rightarrow> nat \<Rightarrow> seat option" where
  "seat_row d i = find (\<lambda>s. seat_id s = i) (seats d)"

text \<open>
  The price of a seat as the specification gives it: the showtime's recliner price
  for a recliner, its premium price for a premium seat, its base price for any other
  seat.
\<close>

definition kind_of :: "db \<Rightarrow> nat \<Rightarrow> seat_kind option" where
  "kind_of d i = map_option seat_type (seat_row d i)"

definition price_of :: "showtime \<Rightarrow> db \<Rightarrow> nat \<Rightarrow> rat" where
  "price_of st d i =
     (case kind_of d i of
        None \<Rightarrow> 0
      | Some Recliner \<Rightarrow> recliner_price st
      | Some Premium \<Rightarrow> premium_price st
      | Some Regular \<Rightarrow> base_price st
      | Some Couple \<Rightarrow> base_price st)"

definition count_kind :: "db \<Rightarrow> seat_kind \<Rightarrow> nat list \<Rightarrow> nat" where
  "count_kind d k ids = length (filter (\<lambda>i. kind_of d i = Some k) ids)"

definition status_of :: "db \<Rightarrow> nat \<Rightarrow> booking_state list" where
  "status_of d bid = map booking_status (filter (\<lambda>b. booking_id b = bid) (bookings d))"

definition count_history :: "db \<Rightarrow> nat \<Rightarrow> booking_state option \<Rightarrow> booking_state \<Rightarrow> nat" where
  "count_history d bid prev new =
     length (filter (\<lambda>h. history_booking h = bid \<and> previous_status h = prev \<and> new_status h = new)
               (history d))"

definition count_history_to :: "db \<Rightarrow> nat \<Rightarrow> booking_state \<Rightarrow> nat" where
  "count_history_to d bid new =
     length (filter (\<lambda>h. history_booking h = bid \<and> new_status h = new) (history d))"

definition success_count :: "db \<Rightarrow> nat \<Rightarrow> nat" where
  "success_count d bid =
     length (filter (\<lambda>t. txn_booking t = bid \<and> txn_status t = TxSuccess) (transactions d))"

text \<open>
  The selection of a cancellation policy as the specification words it: the eligible
  policies are the active ones whose threshold is at most the hours remaining before
  the show, and the applicable policy is the eligible one with the greatest threshold
  (the first such in the table), none when no policy is eligible.
\<close>

definition eligible :: "rat \<Rightarrow> policy list \<Rightarrow> policy list" where
  "eligible h ps = filter (\<lambda>p. policy_is_active p \<and> of_nat (hours_before_show p) \<le> h) ps"

definition applicablePolicy :: "rat \<Rightarrow> policy list \<Rightarrow> policy option" where
  "applicablePolicy h ps =
     find (\<lambda>p. list_all (\<lambda>q. hours_before_show q \<le> hours_before_show p) (eligible h ps))
       (eligible h ps)"



text \<open>
  Scenario A of the specification: showtime 1 on screen 1, base price 150, with the
  show at second 100000; seats 1 and 2 are regular and free, seat 3 is taken.
\<close>

definition showtime_1 :: showtime where
  "showtime_1 =
     \<lparr>showtime_id = 1, showtime_screen = 1, show_datetime = 100000, base_price = 150,
      premium_price = 200, recliner_price = 300, showtime_is_active = True\<rparr>"

definition scenario_A :: db where
  "scenario_A =
     \<lparr>seats =
        [\<lparr>seat_id = 1, seat_screen = 1, seat_type = Regular, is_available = True, is_blocked = False\<rparr>,
         \<lparr>seat_id = 2, seat_screen = 1, seat_type = Regular, is_available = True, is_blocked = False\<rparr>,
         \<lparr>seat_id = 3, seat_screen = 1, seat_type = Premium, is_available = False, is_blocked = False\<rparr>],
      showtimes = [showtime_1],
      bookings = [], booking_seats = [], transactions = [], history = [], refunds = [],
      policies = [], outbox = []\<rparr>"

text \<open>
  A booking of user 7 for seats 1 and 2 of that showtime, held until second 900, with
  no payment attempt yet; one refundable policy from four hours before the show.
\<close>

definition pending_booking :: booking where
  "pending_booking =
     \<lparr>booking_id = 10, booking_user = 7, booking_showtime = 1, subtotal = 300,
      tax_amount = 54, convenience_fee = 20, total_amount = 374,
      booking_status = Pending, expires_at = 900, confirmed_at = None,
      cancelled_at = None, special_requests = []\<rparr>"

definition scenario_held :: db where
  "scenario_held =
     \<lparr>seats =
        [\<lparr>seat_id = 1, seat_screen = 1, seat_type = Regular, is_available = False, is_blocked = False\<rparr>,
         \<lparr>seat_id = 2, seat_screen = 1, seat_type = Regular, is_available = False, is_blocked = False\<rparr>,
         \<lparr>seat_id = 3, seat_screen = 1, seat_type = Premium, is_available = True, is_blocked = False\<rparr>],
      showtimes = [showtime_1],
      bookings = [pending_booking],
      booking_seats = [(10, 1), (10, 2)],
      transactions = [],
      history =
        [\<lparr>history_booking = 10, previous_status = None, new_status = Pending,
          changed_by = Some 7, reason = ''Booking created''\<rparr>],
      refunds = [],
      policies =
        [\<lparr>policy_name = ''Standard'', hours_before_show = 4, cancellation_fee_percentage = 10,
          is_refundable = True, policy_is_active = True\<rparr>],
      outbox = []\<rparr>"

text \<open>
  The same booking with two payment attempts initiated, transactions 200 and 201: the
  rows that two initiation requests leave behind.
\<close>

definition scenario_pending :: db where
  "scenario_pending =
     scenario_held
       \<lparr>transactions :=
          [\<lparr>txn_pk = 20, txn_booking = 10, transaction_id = 200, gateway = Razorpay,
            gateway_transaction_id = [], reference_id = [], amount = 374,
            txn_status = TxInitiated, completed_at = None, failure_reason = []\<rparr>,
           \<lparr>txn_pk = 21, txn_booking = 10, transaction_id = 201, gateway = Razorpay,
            gateway_transaction_id = [], reference_id = [], amount = 374,
            txn_status = TxInitiated, completed_at = None, failure_reason = []\<rparr>]\<rparr>"

text \<open>
  The booking after its one payment attempt was confirmed at second 500: the booking
  is confirmed, transaction 200 is a success, one confirmation was sent.
\<close>

definition paid_booking :: booking where
  "paid_booking = pending_booking\<lparr>booking_status := Confirmed, confirmed_at := Some 500\<rparr>"

definition scenario_paid :: db where
  "scenario_paid =
     scenario_held
       \<lparr>bookings := [paid_booking],
        transactions :=
          [\<lparr>txn_pk = 20, txn_booking = 10, transaction_id = 200, gateway = Razorpay,
            gateway_transaction_id = ''pay_1'', reference_id = [], amount = 374,
            txn_status = TxSuccess, completed_at = Some 500, failure_reason = []\<rparr>],
        history :=
          [\<lparr>history_booking = 10, previous_status = None, new_status = Pending,
            changed_by = Some 7, reason = ''Booking created''\<rparr>,
           \<lparr>history_booking = 10, previous_status = Some Pending, new_status = Confirmed,
            changed_by = Some 7, reason = ''Payment completed successfully''\<rparr>],
        outbox := [Send_booking_confirmation 10]\<rparr>"

text \<open>
  The paid booking where a second, non-refundable policy applies from the start of the
  show on.
\<close>

definition scenario_two_policies :: db where
  "scenario_two_policies =
     scenario_paid
       \<lparr>policies :=
          [\<lparr>policy_name = ''No refund'', hours_before_show = 0, cancellation_fee_percentage = 100,
            is_refundable = False, policy_is_active = True\<rparr>,
           \<lparr>policy_name = ''Standard'', hours_before_show = 4, cancellation_fee_percentage = 10,
            is_refundable = True, policy_is_active = True\<rparr>]\<rparr>"

text \<open>
  The paid booking under the policy "refundable until the show starts", threshold 0
  hours, beside the standard one.
\<close>

definition until_show :: policy where
  "until_show =
     \<lparr>policy_name = ''Until the show'', hours_before_show = 0, cancellation_fee_percentage = 50,
      is_refundable = True, policy_is_active = True\<rparr>"

definition scenario_until_show :: db where
  "scenario_until_show =
     scenario_paid
       \<lparr>policies :=
          [until_show,
           \<lparr>policy_name = ''Standard'', hours_before_show = 4, cancellation_fee_percentage = 10,
            is_refundable = True, policy_is_active = True\<rparr>]\<rparr>"

text \<open>
  A screen with a seat of each type, all free: seat 1 a recliner, seat 2 premium,
  seat 3 regular, seat 4 a couple seat.
\<close>

definition scenario_tiers :: db where
  "scenario_tiers =
     \<lparr>seats =
        [\<lparr>seat_id = 1, seat_screen = 1, seat_type = Recliner, is_available = True, is_blocked = False\<rparr>,
         \<lparr>seat_id = 2, seat_screen = 1, seat_type = Premium, is_available = True, is_blocked = False\<rparr>,
         \<lparr>seat_id = 3, seat_screen = 1, seat_type = Regular, is_available = True, is_blocked = False\<rparr>,
         \<lparr>seat_id = 4, seat_screen = 1, seat_type = Couple, is_available = True, is_blocked = False\<rparr>],
      showtimes = [showtime_1],
      bookings = [], booking_seats = [], transactions = [], history = [], refunds = [],
      policies = [], outbox = []\<rparr>"

section \<open>Properties\<close>

lemma count_eq_imp:
  assumes d: "distinct (map f rows)"
    and len: "length (filter (\<lambda>r. f r \<in> set ids \<and> Q r) rows) = length ids"
  shows "distinct ids \<and> f ` set (filter (\<lambda>r. f r \<in> set ids \<and> Q r) rows) = set ids"
proof -
  let ?F = "filter (\<lambda>r. f r \<in> set ids \<and> Q r) rows"
  have dF: "distinct (map f ?F)" using d by (rule distinct_map_filter)
  have sub: "set (map f ?F) \<subseteq> set ids" by auto
  have "length ?F = length (map f ?F)" by simp
  also have "\<dots> = card (set (map f ?F))" using dF by (rule distinct_card[symmetric])
  also have "\<dots> \<le> card (set ids)" using sub by (simp add: card_mono)
  finally have le1: "length ?F \<le> card (set ids)" .
  have le2: "card (set ids) \<le> length ids" by (rule card_length)
  from le1 le2 len have c: "card (set ids) = length ids" by simp
  hence dist: "distinct ids" by (rule card_distinct)
  have "card (set (map f ?F)) = length (map f ?F)" using dF by (rule distinct_card)
  hence "card (set (map f ?F)) = card (set ids)" using c len by simp
  with sub have "set (map f ?F) = set ids" by (simp add: card_subset_eq)
  thus ?thesis using dist by simp
qed

lemma booking_save_Pending:
  "booking_status b = Pending \<Longrightarrow>
   booking_save sig now b d =
     (if sig then create_booking_history
        (case filter (\<lambda>r. booking_id r = booking_id b) (bookings d) of [] \<Rightarrow> None | r # _ \<Rightarrow> Some r)
        b (write_booking b d) else write_booking b d, b)"
  by (simp add: booking_save_def Let_def handle_booking_confirmation_def
      handle_booking_cancellation_def)

lemma find_distinct_key:
  "distinct (map f xs) \<Longrightarrow> x \<in> set xs \<Longrightarrow> find (\<lambda>y. f y = f x) xs = Some x"
  by (induction xs) (auto simp: image_iff)

lemma booking_save_Pending_frame:
  assumes "booking_status b = Pending"
  shows "seats (fst (booking_save sig now b d)) = seats d"
    and "booking_seats (fst (booking_save sig now b d)) = booking_seats d"
    and "bookings (fst (booking_save sig now b d)) = bookings (write_booking b d)"
    and "snd (booking_save sig now b d) = b"
    and "transactions (fst (booking_save sig now b d)) = transactions d"
    and "showtimes (fst (booking_save sig now b d)) = showtimes d"
  using assms
  by (simp_all add: booking_save_Pending create_booking_history_def history_create_def
      write_booking_def split: list.splits)

lemma seats_of_seats_set:
  "seats_of (seats_set bid sids d) bid = sids"
  by (simp add: seats_of_def seats_set_def comp_def filter_map)

lemma create_success:
  assumes ok: "BookingCreateSerializer_create sig now new_id user st_id seat_ids special d = Inr (d', b)"
  obtains st where
    "objects_get (\<lambda>s. showtime_id s = st_id) (showtimes d) = Inr st"
    "length (filter (lockable st seat_ids) (seats d)) = length seat_ids"
    "new_id \<notin> set (map booking_id (bookings d))"
    "seats d' = map (\<lambda>s. if lockable st seat_ids s then s\<lparr>is_available := False\<rparr> else s) (seats d)"
    "seats_of d' new_id = map seat_id (filter (lockable st seat_ids) (seats d))"
    "bookings d' = bookings d @ [b]"
    "b = \<lparr>booking_id = new_id, booking_user = user, booking_showtime = st_id,
          subtotal = sum_list (map (get_price_for_seat st) (filter (lockable st seat_ids) (seats d))),
          tax_amount = decimal_round (sum_list (map (get_price_for_seat st) (filter (lockable st seat_ids) (seats d))) * (18 / 100)) 2,
          convenience_fee = 20,
          total_amount = sum_list (map (get_price_for_seat st) (filter (lockable st seat_ids) (seats d)))
             + decimal_round (sum_list (map (get_price_for_seat st) (filter (lockable st seat_ids) (seats d))) * (18 / 100)) 2 + 20,
          booking_status = Pending,
          expires_at = now + 15 * 60, confirmed_at = None,
          cancelled_at = None, special_requests = special\<rparr>"
proof -
  from ok obtain st where st: "objects_get (\<lambda>s. showtime_id s = st_id) (showtimes d) = Inr st"
    by (auto simp: BookingCreateSerializer_create_def split: sum.splits)
  let ?chosen = "filter (lockable st seat_ids) (seats d)"
  from ok st have len: "length ?chosen = length seat_ids"
    by (auto simp: BookingCreateSerializer_create_def Let_def split: if_splits)
  from ok st len have fresh: "new_id \<notin> set (map booking_id (bookings d))"
    by (auto simp: BookingCreateSerializer_create_def Let_def split: if_splits)
  define b0 where "b0 = \<lparr>booking_id = new_id, booking_user = user, booking_showtime = st_id,
          subtotal = sum_list (map (get_price_for_seat st) ?chosen),
          tax_amount = decimal_round (sum_list (map (get_price_for_seat st) ?chosen) * (18 / 100)) 2,
          convenience_fee = 20,
          total_amount = sum_list (map (get_price_for_seat st) ?chosen)
             + decimal_round (sum_list (map (get_price_for_seat st) ?chosen) * (18 / 100)) 2 + 20,
          booking_status = Pending,
          expires_at = now + 15 * 60, confirmed_at = None,
          cancelled_at = None, special_requests = special\<rparr>"
  have p: "booking_status b0 = Pending" and id0: "booking_id b0 = new_id" by (simp_all add: b0_def)
  obtain d1 b1 where s: "booking_save sig now b0 d = (d1, b1)" by fastforce
  from booking_save_Pending_frame[OF p, of sig now d] s
  have fr: "seats d1 = seats d" "booking_seats d1 = booking_seats d"
    "bookings d1 = bookings (write_booking b0 d)" "b1 = b0" by simp_all
  from ok st len fresh s have
    d': "d' = (seats_set new_id (map seat_id ?chosen) d1)\<lparr>seats := map (\<lambda>s. if lockable st seat_ids s
                                             then s\<lparr>is_available := False\<rparr> else s) (seats (seats_set new_id (map seat_id ?chosen) d1))\<rparr>"
    and b: "b = b1"
    by (simp_all add: BookingCreateSerializer_create_def Let_def b0_def)
  have 1: "seats d' = map (\<lambda>s. if lockable st seat_ids s then s\<lparr>is_available := False\<rparr> else s) (seats d)"
    by (simp add: d' seats_set_def fr)
  have 2: "seats_of d' new_id = map seat_id ?chosen"
    using seats_of_seats_set[of new_id "map seat_id ?chosen" d1]
    by (simp add: d' seats_of_def)
  have 3: "bookings d' = bookings d @ [b]"
    using fresh by (simp add: d' seats_set_def fr b write_booking_def id0)
  show ?thesis
    by (rule that[OF st len fresh 1 2 3]) (simp add: b fr b0_def)
qed

lemma lockable_alt:
  "lockable st ids = (\<lambda>s. seat_id s \<in> set ids \<and>
      (seat_screen s = showtime_screen st \<and> is_available s \<and> \<not> is_blocked s))"
  by (simp add: lockable_def fun_eq_iff)

lemma chosen_facts:
  assumes d: "distinct (map seat_id (seats d))"
    and len: "length (filter (lockable st ids) (seats d)) = length ids"
  shows "distinct ids"
    and "seat_id ` set (filter (lockable st ids) (seats d)) = set ids"
  using count_eq_imp[OF d, of ids "\<lambda>s. seat_screen s = showtime_screen st \<and> is_available s \<and> \<not> is_blocked s"]
    len
  by (simp_all add: lockable_alt)

lemma find_map_key: "find P (map g xs) = map_option g (find (P \<circ> g) xs)"
  by (induction xs) simp_all

lemma seat_row_after:
  "seat_row (d\<lparr>seats := map (\<lambda>s. if lockable st ids s then s\<lparr>is_available := False\<rparr> else s) (seats d)\<rparr>) i
   = map_option (\<lambda>s. if lockable st ids s then s\<lparr>is_available := False\<rparr> else s) (seat_row d i)"
proof -
  have "(\<lambda>s. seat_id s = i) \<circ> (\<lambda>s. if lockable st ids s then s\<lparr>is_available := False\<rparr> else s)
        = (\<lambda>s. seat_id s = i)"
    by (simp add: fun_eq_iff)
  thus ?thesis by (simp add: seat_row_def find_map_key)
qed

lemma seat_row_seats_cong: "seats d' = seats e \<Longrightarrow> seat_row d' i = seat_row e i"
  by (simp add: seat_row_def)

text \<open>
  C1. Seat reservation is all-or-nothing. For any request (in particular one with a
  non-empty list of seat identifiers) against a seat table with unique keys, either
  \<^verbatim>\<open>serializer.save()\<close> fails and the state is the one before, or it returns a booking
  and then: every requested seat had a row that was available and not blocked, and its
  row is unavailable afterwards; no other seat's row changed; the booking is the one
  new row of the booking table, it is pending, and the seats related to it are exactly
  the requested ones, each once.
\<close>

theorem create_all_or_nothing:
  assumes ne: "seat_ids \<noteq> []"
    and d: "distinct (map seat_id (seats d))"
  shows "case serializer_save sig now new_id user st_id seat_ids special d of
           (d', Inr b) \<Rightarrow>
             (\<forall>i\<in>set seat_ids.
                 (\<exists>s. seat_row d i = Some s \<and> is_available s \<and> \<not> is_blocked s)
                 \<and> (\<exists>s. seat_row d' i = Some s \<and> \<not> is_available s))
             \<and> (\<forall>i. i \<notin> set seat_ids \<longrightarrow> seat_row d' i = seat_row d i)
             \<and> bookings d' = bookings d @ [b]
             \<and> booking_id b = new_id \<and> booking_status b = Pending
             \<and> distinct (seats_of d' (booking_id b))
             \<and> set (seats_of d' (booking_id b)) = set seat_ids
         | (d', Inl e) \<Rightarrow> d' = d"
proof (cases "BookingCreateSerializer_create sig now new_id user st_id seat_ids special d")
  case (Inl e)
  then show ?thesis by (simp add: serializer_save_def)
next
  case (Inr r)
  obtain d' b where r: "r = (d', b)" by (cases r)
  from Inr r have ok: "BookingCreateSerializer_create sig now new_id user st_id seat_ids special d = Inr (d', b)"
    by simp
  from ok obtain st where
    len: "length (filter (lockable st seat_ids) (seats d)) = length seat_ids"
    and seats': "seats d' = map (\<lambda>s. if lockable st seat_ids s then s\<lparr>is_available := False\<rparr> else s) (seats d)"
    and held: "seats_of d' new_id = map seat_id (filter (lockable st seat_ids) (seats d))"
    and bs: "bookings d' = bookings d @ [b]"
    and b: "booking_id b = new_id" "booking_status b = Pending"
    by (rule create_success) simp
  let ?chosen = "filter (lockable st seat_ids) (seats d)"
  let ?upd = "\<lambda>s. if lockable st seat_ids s then s\<lparr>is_available := False\<rparr> else s"
  note cf = chosen_facts[OF d len]
  have row': "seat_row d' i = map_option ?upd (seat_row d i)" for i
    using seat_row_after[of st seat_ids d i] seat_row_seats_cong[of d' "d\<lparr>seats := map ?upd (seats d)\<rparr>" i]
    by (simp add: seats')
  have req: "(\<exists>s. seat_row d i = Some s \<and> is_available s \<and> \<not> is_blocked s)
             \<and> (\<exists>s. seat_row d' i = Some s \<and> \<not> is_available s)" if "i \<in> set seat_ids" for i
  proof -
    from that cf(2) have "i \<in> seat_id ` set ?chosen" by simp
    then obtain s where s: "s \<in> set ?chosen" "seat_id s = i" by (auto simp: image_iff)
    hence s_in: "s \<in> set (seats d)" and lk: "lockable st seat_ids s" by auto
    from find_distinct_key[OF d s_in] s(2) have sr: "seat_row d i = Some s" by (simp add: seat_row_def)
    from lk have "is_available s" "\<not> is_blocked s" by (simp_all add: lockable_def)
    moreover have "seat_row d' i = Some (s\<lparr>is_available := False\<rparr>)" using sr lk by (simp add: row')
    ultimately show ?thesis using sr by simp
  qed
  have other: "seat_row d' i = seat_row d i" if "i \<notin> set seat_ids" for i
  proof (cases "seat_row d i")
    case None
    then show ?thesis by (simp add: row')
  next
    case (Some s)
    hence "seat_id s = i" by (auto simp: seat_row_def dest: find_Some_iff[THEN iffD1])
    with that have "\<not> lockable st seat_ids s" by (simp add: lockable_def)
    with Some show ?thesis by (simp add: row')
  qed
  have dist_held: "distinct (seats_of d' new_id)"
    unfolding held using d by (rule distinct_map_filter)
  have set_held: "set (seats_of d' new_id) = set seat_ids"
    unfolding held using cf(2) by simp
  show ?thesis
    using req other bs b dist_held set_held
    by (simp add: serializer_save_def Inr r)
qed

theorem create_all_or_nothing_witness:
  "\<exists>d' b. serializer_save True 0 10 7 1 [1, 2] [] scenario_A = (d', Inr b)
      \<and> (\<exists>s. seat_row scenario_A 1 = Some s \<and> is_available s \<and> \<not> is_blocked s)
      \<and> (\<exists>s. seat_row d' 1 = Some s \<and> \<not> is_available s)
      \<and> (\<exists>s. seat_row scenario_A 2 = Some s \<and> is_available s \<and> \<not> is_blocked s)
      \<and> (\<exists>s. seat_row d' 2 = Some s \<and> \<not> is_available s)
      \<and> seat_row d' 3 = seat_row scenario_A 3
      \<and> bookings d' = [b] \<and> booking_id b = 10 \<and> booking_status b = Pending
      \<and> set (seats_of d' 10) = {1, 2}"
proof -
  have h1: "[1, 2 :: nat] \<noteq> []" by simp
  have h2: "distinct (map seat_id (seats scenario_A))" by (simp add: scenario_A_def)
  note T = create_all_or_nothing[OF h1 h2, where sig = True and now = 0 and new_id = 10
      and user = 7 and st_id = 1 and special = "[]"]
  have "case serializer_save True 0 10 7 1 [1, 2] [] scenario_A of
          (d', Inr b) \<Rightarrow> True | (d', Inl e) \<Rightarrow> False"
    by code_simp
  then obtain d' b where eq: "serializer_save True 0 10 7 1 [1, 2] [] scenario_A = (d', Inr b)"
    by (auto split: prod.splits sum.splits)
  have bk: "bookings scenario_A = []" by (simp add: scenario_A_def)
  from T have T': "(\<forall>i\<in>set [1, 2 :: nat].
                 (\<exists>s. seat_row scenario_A i = Some s \<and> is_available s \<and> \<not> is_blocked s)
                 \<and> (\<exists>s. seat_row d' i = Some s \<and> \<not> is_available s))
             \<and> (\<forall>i. i \<notin> set [1, 2 :: nat] \<longrightarrow> seat_row d' i = seat_row scenario_A i)
             \<and> bookings d' = bookings scenario_A @ [b]
             \<and> booking_id b = 10 \<and> booking_status b = Pending
             \<and> distinct (seats_of d' (booking_id b))
             \<and> set (seats_of d' (booking_id b)) = set [1, 2]"
    unfolding eq prod.case sum.case .
  hence id: "booking_id b = 10" and other: "seat_row d' 3 = seat_row scenario_A 3" by simp_all
  from T' id other eq show ?thesis
    by (intro exI[of _ d'] exI[of _ b]) (simp add: bk)
qed

lemma round_half_even_near: "\<bar>of_int (round_half_even x) - x\<bar> \<le> 1 / 2"
proof -
  have a: "of_int \<lfloor>x\<rfloor> \<le> x" and b: "x < of_int \<lfloor>x\<rfloor> + 1" by linarith+
  show ?thesis
    using a b by (auto simp: round_half_even_def Let_def abs_le_iff)
qed

lemma decimal_round_2_near: "\<bar>decimal_round x 2 - x\<bar> \<le> 1 / 200"
proof -
  define y where "y = (of_int (round_half_even (x * 100)) :: rat)"
  have n: "\<bar>y - x * 100\<bar> \<le> 1 / 2"
    unfolding y_def by (rule round_half_even_near)
  have "decimal_round x 2 - x = (y - x * 100) / 100"
    by (simp add: decimal_round_def y_def diff_divide_distrib)
  hence "\<bar>decimal_round x 2 - x\<bar> = \<bar>(y - x * 100) / 100\<bar>" by (rule arg_cong)
  also have "\<dots> = \<bar>y - x * 100\<bar> / 100" by (simp only: abs_divide abs_numeral)
  also have "\<dots> \<le> (1 / 2) / 100" using n by (simp add: divide_right_mono)
  finally show ?thesis by simp
qed

lemma price_of_row:
  assumes "distinct (map seat_id (seats d))" and "s \<in> set (seats d)"
  shows "price_of st d (seat_id s) = get_price_for_seat st s"
proof -
  from find_distinct_key[OF assms] have "kind_of d (seat_id s) = Some (seat_type s)"
    by (simp add: kind_of_def seat_row_def)
  thus ?thesis
    by (cases "seat_type s") (simp_all add: price_of_def get_price_for_seat_def)
qed

lemma sum_price_by_kind:
  "(\<Sum>i\<leftarrow>ids. price_of st d i)
   = recliner_price st * of_nat (count_kind d Recliner ids)
     + premium_price st * of_nat (count_kind d Premium ids)
     + base_price st * of_nat (count_kind d Regular ids + count_kind d Couple ids)"
  by (induction ids)
     (auto simp: price_of_def count_kind_def algebra_simps split: option.splits seat_kind.splits)

text \<open>
  C8. For a successfully created booking, the subtotal is the sum, over the seats
  held by the booking (equally: over the requested seat identifiers), of the
  showtime's price for the seat's type, which is the recliner price for a recliner,
  the premium price for a premium seat and the base price for a regular or a couple
  seat: the recliner price times the number of recliners requested, plus the premium
  price times the number of premium seats, plus the base price times the number of
  the others. The tax is that subtotal times 0.18 rounded to two decimal places (a
  multiple of 0.01 at most half a hundredth away); the convenience fee is 20.00; and
  the total is their sum.
\<close>

theorem create_pricing:
  assumes ok: "BookingCreateSerializer_create sig now new_id user st_id seat_ids special d = Inr (d', b)"
    and d: "distinct (map seat_id (seats d))"
    and st: "objects_get (\<lambda>s. showtime_id s = st_id) (showtimes d) = Inr st"
  shows "subtotal b = (\<Sum>i\<leftarrow>seats_of d' (booking_id b). price_of st d i)
       \<and> subtotal b = (\<Sum>i\<leftarrow>seat_ids. price_of st d i)
       \<and> subtotal b = recliner_price st * of_nat (count_kind d Recliner seat_ids)
                      + premium_price st * of_nat (count_kind d Premium seat_ids)
                      + base_price st * of_nat (count_kind d Regular seat_ids
                                                + count_kind d Couple seat_ids)
       \<and> tax_amount b = decimal_round (subtotal b * (18 / 100)) 2
       \<and> \<bar>tax_amount b - subtotal b * (18 / 100)\<bar> \<le> 1 / 200
       \<and> (\<exists>k::int. tax_amount b = of_int k / 100)
       \<and> convenience_fee b = 20
       \<and> total_amount b = subtotal b + tax_amount b + convenience_fee b"
proof -
  from ok obtain st' where
    st': "objects_get (\<lambda>s. showtime_id s = st_id) (showtimes d) = Inr st'"
    and len: "length (filter (lockable st' seat_ids) (seats d)) = length seat_ids"
    and held: "seats_of d' new_id = map seat_id (filter (lockable st' seat_ids) (seats d))"
    and b: "booking_id b = new_id"
      "subtotal b = sum_list (map (get_price_for_seat st') (filter (lockable st' seat_ids) (seats d)))"
      "tax_amount b = decimal_round (subtotal b * (18 / 100)) 2"
      "convenience_fee b = 20"
      "total_amount b = subtotal b + tax_amount b + convenience_fee b"
    by (rule create_success) simp
  from st st' have [simp]: "st' = st" by simp
  let ?chosen = "filter (lockable st seat_ids) (seats d)"
  note cf = chosen_facts[OF d len[simplified]]
  have pr: "map (price_of st d \<circ> seat_id) ?chosen = map (get_price_for_seat st) ?chosen"
    by (rule map_cong[OF refl]) (simp add: price_of_row[OF d])
  have s1: "subtotal b = (\<Sum>i\<leftarrow>seats_of d' (booking_id b). price_of st d i)"
    using held by (simp add: b pr)
  have "distinct (map seat_id ?chosen)" using d by (rule distinct_map_filter)
  moreover have "set (map seat_id ?chosen) = set seat_ids" using cf(2) by simp
  ultimately have "mset (map seat_id ?chosen) = mset seat_ids"
    using cf(1) by (simp only: set_eq_iff_mset_eq_distinct[symmetric])
  hence "sum_mset (image_mset (price_of st d) (mset (map seat_id ?chosen)))
       = sum_mset (image_mset (price_of st d) (mset seat_ids))" by simp
  hence "sum_list (map (price_of st d) (map seat_id ?chosen)) = sum_list (map (price_of st d) seat_ids)"
    by (simp only: mset_map[symmetric] sum_mset_sum_list)
  hence s2: "subtotal b = (\<Sum>i\<leftarrow>seat_ids. price_of st d i)"
    using s1 held by (simp add: b)
  have s3: "subtotal b = recliner_price st * of_nat (count_kind d Recliner seat_ids)
                      + premium_price st * of_nat (count_kind d Premium seat_ids)
                      + base_price st * of_nat (count_kind d Regular seat_ids
                                                + count_kind d Couple seat_ids)"
    unfolding s2 by (rule sum_price_by_kind)
  have t: "\<bar>tax_amount b - subtotal b * (18 / 100)\<bar> \<le> 1 / 200"
    unfolding b(3) by (rule decimal_round_2_near)
  have k: "\<exists>k::int. tax_amount b = of_int k / 100"
    unfolding b(3) by (auto simp: decimal_round_def)
  show ?thesis using s1 s2 s3 b(3,4,5) t k by blast
qed

text \<open>
  Scenario A of the specification: two regular seats at base price 150 give 300.00,
  54.00, 20.00 and 374.00. On the screen with a seat of each type, at prices 300, 200
  and 150, the recliner and the premium seat give 500.00, 90.00, 20.00 and 610.00, and
  the regular and the couple seat give 300.00, 54.00, 20.00 and 374.00.
\<close>

theorem create_pricing_witness:
  "(\<exists>d' b. BookingCreateSerializer_create True 0 10 7 1 [1, 2] [] scenario_A = Inr (d', b)
      \<and> subtotal b = 300 \<and> tax_amount b = 54 \<and> convenience_fee b = 20
      \<and> total_amount b = 374)
   \<and> (\<exists>d' b. BookingCreateSerializer_create True 0 10 7 1 [1, 2] [] scenario_tiers = Inr (d', b)
      \<and> subtotal b = 500 \<and> tax_amount b = 90 \<and> convenience_fee b = 20
      \<and> total_amount b = 610)
   \<and> (\<exists>d' b. BookingCreateSerializer_create True 0 10 7 1 [3, 4] [] scenario_tiers = Inr (d', b)
      \<and> subtotal b = 300 \<and> tax_amount b = 54 \<and> convenience_fee b = 20
      \<and> total_amount b = 374)"
proof -
  have A: "\<exists>d' b. BookingCreateSerializer_create True 0 10 7 1 [1, 2] [] scenario_A = Inr (d', b)
      \<and> subtotal b = 300 \<and> tax_amount b = 54 \<and> convenience_fee b = 20
      \<and> total_amount b = 374"
  proof -
    have "case BookingCreateSerializer_create True 0 10 7 1 [1, 2] [] scenario_A of
            Inr r \<Rightarrow> True | Inl e \<Rightarrow> False"
      by code_simp
    then obtain d' b where
      eq: "BookingCreateSerializer_create True 0 10 7 1 [1, 2] [] scenario_A = Inr (d', b)"
      by (auto split: sum.splits)
    have h2: "distinct (map seat_id (seats scenario_A))" by (simp add: scenario_A_def)
    have h3: "objects_get (\<lambda>s. showtime_id s = 1) (showtimes scenario_A) = Inr showtime_1"
      by code_simp
    note T = create_pricing[OF eq h2 h3]
    have sub: "recliner_price showtime_1 * of_nat (count_kind scenario_A Recliner [1, 2])
                + premium_price showtime_1 * of_nat (count_kind scenario_A Premium [1, 2])
                + base_price showtime_1 * of_nat (count_kind scenario_A Regular [1, 2]
                                                  + count_kind scenario_A Couple [1, 2]) = 300"
      by code_simp
    have tax: "decimal_round (300 * (18 / 100)) 2 = 54" by code_simp
    from T sub have s: "subtotal b = 300" by simp
    from T s tax have t: "tax_amount b = 54" by simp
    from T s t have "convenience_fee b = 20" "total_amount b = 374" by simp_all
    with eq s t show ?thesis by simp
  qed
  have B: "\<exists>d' b. BookingCreateSerializer_create True 0 10 7 1 [1, 2] [] scenario_tiers = Inr (d', b)
      \<and> subtotal b = 500 \<and> tax_amount b = 90 \<and> convenience_fee b = 20
      \<and> total_amount b = 610"
  proof -
    have "case BookingCreateSerializer_create True 0 10 7 1 [1, 2] [] scenario_tiers of
            Inr r \<Rightarrow> True | Inl e \<Rightarrow> False"
      by code_simp
    then obtain d' b where
      eq: "BookingCreateSerializer_create True 0 10 7 1 [1, 2] [] scenario_tiers = Inr (d', b)"
      by (auto split: sum.splits)
    have h2: "distinct (map seat_id (seats scenario_tiers))" by (simp add: scenario_tiers_def)
    have h3: "objects_get (\<lambda>s. showtime_id s = 1) (showtimes scenario_tiers) = Inr showtime_1"
      by code_simp
    note T = create_pricing[OF eq h2 h3]
    have sub: "recliner_price showtime_1 * of_nat (count_kind scenario_tiers Recliner [1, 2])
                + premium_price showtime_1 * of_nat (count_kind scenario_tiers Premium [1, 2])
                + base_price showtime_1 * of_nat (count_kind scenario_tiers Regular [1, 2]
                                                  + count_kind scenario_tiers Couple [1, 2]) = 500"
      by code_simp
    have tax: "decimal_round (500 * (18 / 100)) 2 = 90" by code_simp
    from T sub have s: "subtotal b = 500" by simp
    from T s tax have t: "tax_amount b = 90" by simp
    from T s t have "convenience_fee b = 20" "total_amount b = 610" by simp_all
    with eq s t show ?thesis by simp
  qed
  have C: "\<exists>d' b. BookingCreateSerializer_create True 0 10 7 1 [3, 4] [] scenario_tiers = Inr (d', b)
      \<and> subtotal b = 300 \<and> tax_amount b = 54 \<and> convenience_fee b = 20
      \<and> total_amount b = 374"
  proof -
    have "case BookingCreateSerializer_create True 0 10 7 1 [3, 4] [] scenario_tiers of
            Inr r \<Rightarrow> True | Inl e \<Rightarrow> False"
      by code_simp
    then obtain d' b where
      eq: "BookingCreateSerializer_create True 0 10 7 1 [3, 4] [] scenario_tiers = Inr (d', b)"
      by (auto split: sum.splits)
    have h2: "distinct (map seat_id (seats scenario_tiers))" by (simp add: scenario_tiers_def)
    have h3: "objects_get (\<lambda>s. showtime_id s = 1) (showtimes scenario_tiers) = Inr showtime_1"
      by code_simp
    note T = create_pricing[OF eq h2 h3]
    have sub: "recliner_price showtime_1 * of_nat (count_kind scenario_tiers Recliner [3, 4])
                + premium_price showtime_1 * of_nat (count_kind scenario_tiers Premium [3, 4])
                + base_price showtime_1 * of_nat (count_kind scenario_tiers Regular [3, 4]
                                                  + count_kind scenario_tiers Couple [3, 4]) = 300"
      by code_simp
    have tax: "decimal_round (300 * (18 / 100)) 2 = 54" by code_simp
    from T sub have s: "subtotal b = 300" by simp
    from T s tax have t: "tax_amount b = 54" by simp
    from T s t have "convenience_fee b = 20" "total_amount b = 374" by simp_all
    with eq s t show ?thesis by simp
  qed
  from A B C show ?thesis by (intro conjI)
qed


lemma mark_seats_frame [simp]:
  "transactions (mark_seats bid v d) = transactions d"
  "refunds (mark_seats bid v d) = refunds d"
  "bookings (mark_seats bid v d) = bookings d"
  "history (mark_seats bid v d) = history d"
  "outbox (mark_seats bid v d) = outbox d"
  by (simp_all add: mark_seats_def)

lemma write_booking_frame [simp]:
  "transactions (write_booking b d) = transactions d"
  "refunds (write_booking b d) = refunds d"
  "showtimes (write_booking b d) = showtimes d"
  by (simp_all add: write_booking_def)

lemma enqueue_frame [simp]:
  "transactions (enqueue t d) = transactions d"
  "refunds (enqueue t d) = refunds d"
  "bookings (enqueue t d) = bookings d"
  "history (enqueue t d) = history d"
  by (simp_all add: enqueue_def)

lemma history_create_frame [simp]:
  "transactions (history_create h d) = transactions d"
  "refunds (history_create h d) = refunds d"
  "bookings (history_create h d) = bookings d"
  "outbox (history_create h d) = outbox d"
  "showtimes (history_create h d) = showtimes d"
  by (simp_all add: history_create_def)

lemma create_booking_history_frame [simp]:
  "transactions (create_booking_history old b d) = transactions d"
  "refunds (create_booking_history old b d) = refunds d"
  "bookings (create_booking_history old b d) = bookings d"
  "showtimes (create_booking_history old b d) = showtimes d"
  by (simp_all add: create_booking_history_def split: option.splits)

lemma handle_booking_confirmation_frame [simp]:
  "transactions (fst (handle_booking_confirmation now b d)) = transactions d"
  "refunds (fst (handle_booking_confirmation now b d)) = refunds d"
  "booking_status (snd (handle_booking_confirmation now b d)) = booking_status b"
  "booking_id (snd (handle_booking_confirmation now b d)) = booking_id b"
  by (simp_all add: handle_booking_confirmation_def Let_def split: option.splits)

lemma handle_booking_cancellation_frame [simp]:
  "transactions (fst (handle_booking_cancellation now b d)) = transactions d"
  "refunds (fst (handle_booking_cancellation now b d)) = refunds d"
  "booking_status (snd (handle_booking_cancellation now b d)) = booking_status b"
  "booking_id (snd (handle_booking_cancellation now b d)) = booking_id b"
  by (simp_all add: handle_booking_cancellation_def Let_def)

lemma booking_save_frame [simp]:
  "transactions (fst (booking_save sig now b d)) = transactions d"
  "refunds (fst (booking_save sig now b d)) = refunds d"
  "booking_status (snd (booking_save sig now b d)) = booking_status b"
  "booking_id (snd (booking_save sig now b d)) = booking_id b"
  by (simp_all add: booking_save_def Let_def split_beta)

lemma write_txn_refunds [simp]: "refunds (write_txn t d) = refunds d"
  by (simp add: write_txn_def)

lemma handle_successful_payment_frame [simp]:
  "transactions (fst (handle_successful_payment now t bk d)) = transactions d"
  "refunds (fst (handle_successful_payment now t bk d)) = refunds d"
  "booking_id (snd (handle_successful_payment now t bk d)) = booking_id bk"
  by (simp_all add: handle_successful_payment_def Let_def split_beta)

lemma handle_failed_payment_frame [simp]:
  "transactions (fst (handle_failed_payment now t bk d)) = transactions d"
  "refunds (fst (handle_failed_payment now t bk d)) = refunds d"
  "booking_id (snd (handle_failed_payment now t bk d)) = booking_id bk"
  by (simp_all add: handle_failed_payment_def Let_def split_beta)

lemma transaction_save_frame [simp]:
  "transactions (fst (transaction_save sig now t bk d)) = transactions (write_txn t d)"
  "refunds (fst (transaction_save sig now t bk d)) = refunds d"
  "booking_id (snd (transaction_save sig now t bk d)) = booking_id bk"
  by (simp_all add: transaction_save_def Let_def split_beta)

lemma objects_get_Inr:
  "objects_get P rows = Inr x \<Longrightarrow> x \<in> set rows \<and> P x"
proof -
  assume a: "objects_get P rows = Inr x"
  hence "filter P rows = [x]"
    by (auto simp: objects_get_def split: list.splits)
  hence "x \<in> set (filter P rows)" by simp
  thus ?thesis by simp
qed

lemma write_txn_existing:
  "t \<in> set (transactions d) \<Longrightarrow> txn_pk t1 = txn_pk t \<Longrightarrow>
   transactions (write_txn t1 d) = map (\<lambda>r. if txn_pk r = txn_pk t then t1 else r) (transactions d)"
  by (auto simp: write_txn_def)

lemma confirm_verified_marks_success:
  assumes bk: "get_object_or_404 (\<lambda>b. booking_id b = bid \<and> booking_user b = user) (bookings d)
                 = Inr booking"
    and t: "objects_get (\<lambda>t. transaction_id t = tid \<and> txn_booking t = booking_id booking)
              (transactions d) = Inr t"
    and g: "get_gateway (gateway t) = Inr g"
  shows "snd (ConfirmPaymentView_update sig now user bid tid gtid True d)
           = Inr (Response 200 ''Payment confirmed successfully'')"
    and "transactions (fst (ConfirmPaymentView_update sig now user bid tid gtid True d))
           = map (\<lambda>r. if txn_pk r = txn_pk t
                       then t\<lparr>txn_status := TxSuccess, gateway_transaction_id := gtid,
                              completed_at := Some now\<rparr>
                       else r) (transactions d)"
proof -
  let ?t1 = "t\<lparr>txn_status := TxSuccess, gateway_transaction_id := gtid, completed_at := Some now\<rparr>"
  from objects_get_Inr[OF t] have tin: "t \<in> set (transactions d)" by simp
  show "snd (ConfirmPaymentView_update sig now user bid tid gtid True d)
           = Inr (Response 200 ''Payment confirmed successfully'')"
    using bk t g by (simp add: ConfirmPaymentView_update_def Let_def split_beta)
  have "transactions (fst (ConfirmPaymentView_update sig now user bid tid gtid True d))
          = transactions (write_txn ?t1 d)"
    using bk t g by (simp add: ConfirmPaymentView_update_def Let_def split_beta)
  also have "\<dots> = map (\<lambda>r. if txn_pk r = txn_pk t then ?t1 else r) (transactions d)"
    by (rule write_txn_existing[OF tin]) simp
  finally show "transactions (fst (ConfirmPaymentView_update sig now user bid tid gtid True d))
           = map (\<lambda>r. if txn_pk r = txn_pk t then ?t1 else r) (transactions d)" .
qed

lemma json_serializable_create_order: "\<not> json_serializable (create_order g t oid)"
  by (simp add: json_serializable_def create_order_def)

lemma initiate_never_answers_200:
  "snd (InitiatePaymentView_create sig now new_pk new_tid user bid gw order d)
     \<noteq> Inr (Response 200 ''payment_data'')"
  by (simp add: InitiatePaymentView_create_def Let_def split_beta json_serializable_create_order
      split: sum.splits option.splits pyval.splits)

lemma initiate_leaves_row:
  assumes "get_object_or_404 (\<lambda>b. booking_id b = bid \<and> booking_user b = user) (bookings d)
             = Inr booking"
    and "booking_status booking = Pending" and "now < expires_at booking"
    and "new_pk \<notin> set (map txn_pk (transactions d))"
    and "new_tid \<notin> set (map transaction_id (transactions d))"
  shows "snd (InitiatePaymentView_create sig now new_pk new_tid user bid gw order d)
           = Inr (Response 500 ''Payment initiation failed. Please try again.'')"
    and "transactions (fst (InitiatePaymentView_create sig now new_pk new_tid user bid gw order d))
           = transactions d @
             [\<lparr>txn_pk = new_pk, txn_booking = booking_id booking, transaction_id = new_tid,
               gateway = gw, gateway_transaction_id = [], reference_id = [],
               amount = total_amount booking, txn_status = TxInitiated,
               completed_at = None, failure_reason = []\<rparr>]"
  using assms
  by (simp_all add: InitiatePaymentView_create_def Let_def split_beta
      json_serializable_create_order write_txn_def
      split: sum.splits option.splits pyval.splits)

lemma hex_digits_length: "length (hex_digits k n) = k"
  by (induction k arbitrary: n) simp_all

lemma hexdigest_not_empty: "hexdigest n \<noteq> []" "[] \<noteq> hexdigest n"
  using hex_digits_length[of 64 n] by (auto simp: hexdigest_def)

lemma meta_key_not_header:
  "meta_key name \<noteq> ''X-Razorpay-Signature''"
  "meta_key name \<noteq> ''stripe-signature''"
  "''X-Razorpay-Signature'' \<noteq> meta_key name"
  "''stripe-signature'' \<noteq> meta_key name"
  by (auto simp: meta_key_def Let_def)

lemma META_has_no_signature:
  "map_of (request_META hs) ''X-Razorpay-Signature'' = None"
  "map_of (request_META hs) ''stripe-signature'' = None"
  by (auto simp: map_of_eq_None_iff request_META_def image_iff meta_key_not_header)

lemma razorpay_handle_webhook_fails:
  "\<not> wr_success (razorpay_handle_webhook mac event payload (request_META hs))"
  by (cases payload)
     (simp_all add: razorpay_handle_webhook_def META_has_no_signature webhook_failure_def
        hexdigest_not_empty)

lemma stripe_handle_webhook_fails:
  "\<not> wr_success (stripe_handle_webhook event payload (request_META hs))"
  by (simp add: stripe_handle_webhook_def META_has_no_signature webhook_failure_def)

text \<open>
  C5. A webhook request changes nothing, whatever it carries: the state after
  \<^verbatim>\<open>payment_webhook\<close> is the state before, for every gateway parameter, body and set of
  headers, so the bookings, the transactions and the queue of notifications are as
  they were, also for an event that names a transaction already in status success;
  the answer is 200 or 500. The update of lines 359 to 382 is never reached, because
  neither gateway finds its signature under the key it reads in \<^verbatim>\<open>request.META\<close> and
  each then answers without success.
\<close>

theorem webhook_changes_nothing:
  "fst (payment_webhook sig now mac razorpay_event stripe_event gw data hs d) = d
   \<and> bookings (fst (payment_webhook sig now mac razorpay_event stripe_event gw data hs d))
       = bookings d
   \<and> transactions (fst (payment_webhook sig now mac razorpay_event stripe_event gw data hs d))
       = transactions d
   \<and> outbox (fst (payment_webhook sig now mac razorpay_event stripe_event gw data hs d))
       = outbox d
   \<and> (snd (payment_webhook sig now mac razorpay_event stripe_event gw data hs d)
         = Response 200 ''success''
       \<or> snd (payment_webhook sig now mac razorpay_event stripe_event gw data hs d)
         = Response 500 ''error'')"
proof -
  have "fst (payment_webhook sig now mac razorpay_event stripe_event gw data hs d) = d
      \<and> (snd (payment_webhook sig now mac razorpay_event stripe_event gw data hs d)
            = Response 200 ''success''
          \<or> snd (payment_webhook sig now mac razorpay_event stripe_event gw data hs d)
            = Response 500 ''error'')"
    by (simp add: payment_webhook_def Let_def razorpay_handle_webhook_fails
        stripe_handle_webhook_fails split: sum.splits)
  thus ?thesis by simp
qed

lemma policy_sorted_head:
  assumes "sort_key k xs = p # rest"
  shows "p \<in> set xs \<and> (\<forall>q\<in>set xs. k p \<le> k q)"
proof -
  have s: "set (sort_key k xs) = set xs" by simp
  have "sorted (map k (sort_key k xs))" by (rule sorted_sort_key)
  with assms have "\<forall>q\<in>set rest. k p \<le> k q" by simp
  moreover from s assms have "set xs = insert p (set rest)" by simp
  ultimately show ?thesis by auto
qed

lemma get_applicable_policy_None:
  "get_applicable_policy h ps = None \<longleftrightarrow>
     (\<forall>p\<in>set ps. \<not> (policy_is_active p \<and> int (hours_before_show p) \<le> py_int h))"
proof -
  let ?F = "filter (\<lambda>p. int (hours_before_show p) \<le> py_int h \<and> policy_is_active p) ps"
  have "sort_key k xs = [] \<longleftrightarrow> xs = []" for k :: "policy \<Rightarrow> int" and xs
    by (metis length_sort list.size(3) length_0_conv)
  from this[of "\<lambda>p. - int (hours_before_show p)" ?F]
  have "get_applicable_policy h ps = None \<longleftrightarrow> ?F = []"
    by (cases "sort_key (\<lambda>p. - int (hours_before_show p)) ?F")
       (simp_all add: get_applicable_policy_def)
  thus ?thesis by (auto simp: filter_empty_conv)
qed

lemma get_applicable_policy_Some:
  assumes "get_applicable_policy h ps = Some p"
  shows "p \<in> set ps \<and> policy_is_active p \<and> int (hours_before_show p) \<le> py_int h
       \<and> (\<forall>q\<in>set ps. policy_is_active q \<and> int (hours_before_show q) \<le> py_int h
              \<longrightarrow> hours_before_show q \<le> hours_before_show p)"
proof -
  let ?F = "filter (\<lambda>p. int (hours_before_show p) \<le> py_int h \<and> policy_is_active p) ps"
  from assms obtain rest where "sort_key (\<lambda>p. - int (hours_before_show p)) ?F = p # rest"
    by (auto simp: get_applicable_policy_def split: list.splits)
  from policy_sorted_head[OF this]
  have "p \<in> set ?F" and "\<forall>q\<in>set ?F. - int (hours_before_show p) \<le> - int (hours_before_show q)"
    by blast+
  thus ?thesis by auto
qed

lemma py_int_le_iff:
  assumes "\<not> (- 1 < h \<and> h < 0)"
  shows "int n \<le> py_int h \<longleftrightarrow> of_nat n \<le> h"
proof (cases "0 \<le> h")
  case True
  have "int n \<le> \<lfloor>h\<rfloor> \<longleftrightarrow> of_int (int n) \<le> h" by (rule le_floor_iff)
  thus ?thesis using True by (simp add: py_int_def)
next
  case False
  with assms have "h \<le> - 1" by simp
  hence "\<lceil>h\<rceil> \<le> - 1" by (simp add: ceiling_le_iff)
  hence "\<not> int n \<le> py_int h" using False by (simp add: py_int_def)
  moreover have "(0::rat) \<le> of_nat n" by simp
  with False have "\<not> of_nat n \<le> h" by linarith
  ultimately show ?thesis by simp
qed

lemma py_int_in_gap:
  assumes "- 1 < h" and "h < 0"
  shows "py_int h = 0"
proof -
  from assms have "\<lceil>h\<rceil> = 0" by (simp add: ceiling_eq_iff)
  thus ?thesis using assms by (simp add: py_int_def)
qed

lemma find_filter_head: "find P xs = (case filter P xs of [] \<Rightarrow> None | x # _ \<Rightarrow> Some x)"
  by (induction xs) simp_all

lemma sort_key_head_is_first_least:
  assumes "sort_key k xs = p # rest"
  shows "find (\<lambda>x. \<forall>y\<in>set xs. k x \<le> k y) xs = Some p"
proof -
  from policy_sorted_head[OF assms] have pin: "p \<in> set xs" and least: "\<forall>q\<in>set xs. k p \<le> k q"
    by simp_all
  have eq: "(\<forall>y\<in>set xs. k x \<le> k y) \<longleftrightarrow> k x = k p" if "x \<in> set xs" for x :: 'a
    using that pin least by (metis order.trans order_antisym)
  have "filter (\<lambda>x. \<forall>y\<in>set xs. k x \<le> k y) xs = filter (\<lambda>x. k x = k p) xs"
    by (rule filter_cong[OF refl]) (rule eq)
  also have "\<dots> = filter (\<lambda>x. k x = k p) (sort_key k xs)"
    by (rule sort_key_stable[symmetric])
  also have "\<dots> = p # filter (\<lambda>x. k x = k p) rest"
    by (simp add: assms)
  finally show ?thesis by (simp add: find_filter_head)
qed

lemma applicable_policy_agrees:
  assumes gap: "\<not> (- 1 < h \<and> h < 0)"
  shows "get_applicable_policy h ps = applicablePolicy h ps"
proof -
  let ?k = "\<lambda>p. - int (hours_before_show p)"
  have F: "filter (\<lambda>p. int (hours_before_show p) \<le> py_int h \<and> policy_is_active p) ps = eligible h ps"
    unfolding eligible_def
    by (rule filter_cong[OF refl]) (auto simp: py_int_le_iff[OF gap])
  have P: "(\<lambda>p. list_all (\<lambda>q. hours_before_show q \<le> hours_before_show p) (eligible h ps))
         = (\<lambda>x. \<forall>y\<in>set (eligible h ps). ?k x \<le> ?k y)"
    by (simp add: fun_eq_iff list_all_iff)
  show ?thesis
  proof (cases "sort_key ?k (eligible h ps)")
    case Nil
    hence "eligible h ps = []"
      by (metis length_sort list.size(3) length_0_conv)
    thus ?thesis by (simp add: get_applicable_policy_def F applicablePolicy_def)
  next
    case (Cons p rest)
    from sort_key_head_is_first_least[OF Cons]
    have "applicablePolicy h ps = Some p" by (simp add: applicablePolicy_def P)
    thus ?thesis by (simp add: get_applicable_policy_def F Cons)
  qed
qed

lemma policy_violation_refused:
  assumes "get_object_or_404 (\<lambda>b. booking_id b = bid \<and> booking_user b = user) (bookings d) = Inr booking"
    and "booking_status booking = Pending \<or> booking_status booking = Confirmed"
    and "strip why \<noteq> []" and "length (strip why) \<le> 500" and "CHR 0x00 \<notin> set (strip why)"
    and "objects_get (\<lambda>s. showtime_id s = booking_showtime booking) (showtimes d) = Inr st"
    and "case get_applicable_policy (of_int (show_datetime st - now) / 3600) (policies d) of
           None \<Rightarrow> True | Some pol \<Rightarrow> \<not> is_refundable pol"
  shows "CancelBookingView_update sig now new_refund user bid why d
           = (d, Inl (ValidationError ''Cancellation not allowed at this time''))"
proof -
  from assms
  have "cancel_is_valid now booking why d
          = Inl (ValidationError ''Cancellation not allowed at this time'')"
    by (auto simp: cancel_is_valid_def BookingCancelSerializer_validate_def Let_def
        split: option.splits)
  with assms(1) show ?thesis by (simp add: CancelBookingView_update_def)
qed

lemma blank_reason_refused_by_field:
  assumes "get_object_or_404 (\<lambda>b. booking_id b = bid \<and> booking_user b = user) (bookings d) = Inr booking"
    and "strip why = []"
  shows "CancelBookingView_update sig now new_refund user bid why d
           = (d, Inl (ValidationError ''reason''))"
  using assms by (simp add: CancelBookingView_update_def cancel_is_valid_def)

lemma scenario_E_refused:
  "get_applicable_policy 2 (policies scenario_paid) = None
   \<and> applicablePolicy 2 (policies scenario_paid) = None
   \<and> CancelBookingView_update True 92800 30 7 10 ''change of plans'' scenario_paid
       = (scenario_paid, Inl (ValidationError ''Cancellation not allowed at this time''))
   \<and> get_applicable_policy 2 (policies scenario_two_policies)
       = applicablePolicy 2 (policies scenario_two_policies)
   \<and> map_option hours_before_show (get_applicable_policy 2 (policies scenario_two_policies))
       = Some 0
   \<and> CancelBookingView_update True 92800 30 7 10 ''change of plans'' scenario_two_policies
       = (scenario_two_policies, Inl (ValidationError ''Cancellation not allowed at this time''))"
  by code_simp

text \<open>
  C9. The claim fails between the start of the show and one hour after it. The
  scenario's booking is confirmed, its show started at second 100000, and the active
  policies have thresholds 0 (refundable) and 4 hours. At second 101800 the hours
  remaining are minus one half: no policy has a threshold at most that, so the claim
  selects none and has the cancellation refused. \<^verbatim>\<open>get_applicable_policy\<close> returns the
  policy with threshold 0, since the filter compares with \<^verbatim>\<open>int(-0.5)\<close>, which is 0,
  and the cancellation answers 200 and cancels the booking, with the receivers
  connected or not.
\<close>

theorem cancel_after_show_started:
  "(of_int (show_datetime showtime_1 - 101800) / 3600 :: rat) = - (1 / 2)
   \<and> status_of scenario_until_show 10 = [Confirmed]
   \<and> eligible (- (1 / 2)) (policies scenario_until_show) = []
   \<and> applicablePolicy (- (1 / 2)) (policies scenario_until_show) = None
   \<and> get_applicable_policy (- (1 / 2)) (policies scenario_until_show) = Some until_show
   \<and> snd (CancelBookingView_update False 101800 30 7 10 ''change of plans'' scenario_until_show)
       = Inr (Response 200 ''Booking cancelled successfully'')
   \<and> status_of (fst (CancelBookingView_update False 101800 30 7 10 ''change of plans''
                        scenario_until_show)) 10
       = [Cancelled]
   \<and> snd (CancelBookingView_update True 101800 30 7 10 ''change of plans'' scenario_until_show)
       = Inr (Response 200 ''Booking cancelled successfully'')
   \<and> status_of (fst (CancelBookingView_update True 101800 30 7 10 ''change of plans''
                        scenario_until_show)) 10
       = [Cancelled]"
  by code_simp


lemma create_view_never_creates:
  "fst (CreateBookingView_create sig now new_id user st_id seat_ids special d) = d
   \<and> snd (CreateBookingView_create sig now new_id user st_id seat_ids special d)
       \<noteq> Inr (Response 201 ''Booking created successfully'')"
proof -
  have "\<exists>e. create_is_valid st_id seat_ids d = Inl e"
    by (simp add: create_is_valid_def validate_seat_ids_def Let_def split: sum.splits)
  then obtain e where "create_is_valid st_id seat_ids d = Inl e" ..
  thus ?thesis
    by (simp add: CreateBookingView_create_def split: sum.splits)
qed

lemma create_view_name_error:
  "CreateBookingView_create True 0 10 7 1 [1, 2] [] scenario_A
     = (scenario_A, Inl (NameError ''models''))
   \<and> CreateBookingView_create False 0 10 7 1 [1, 2] [] scenario_A
     = (scenario_A, Inl (NameError ''models''))"
  by code_simp




lemma initiate_payment_expired:
  assumes "get_object_or_404 (\<lambda>b. booking_id b = bid \<and> booking_user b = user) (bookings d) = Inr booking"
    and "booking_status booking = Pending" and "expires_at booking \<le> now"
  shows "snd (InitiatePaymentView_create sig now new_pk new_tid user bid gw order d)
           = Inr (Response 400 ''Booking has expired'')"
    and "transactions (fst (InitiatePaymentView_create sig now new_pk new_tid user bid gw order d))
           = transactions d"
  using assms by (simp_all add: InitiatePaymentView_create_def Let_def split_beta)

text \<open>
  C2. The claim fails on the confirmation path. The booking of the scenario is pending
  and its deadline is second 900. At second 900 exactly, payment initiation is refused
  with "Booking has expired" and marks the booking expired, as the claim says; payment
  confirmation with a verified payment answers 200 and leaves the booking confirmed,
  with the receivers connected or not: \<^verbatim>\<open>ConfirmPaymentView.update\<close> never reads
  \<^verbatim>\<open>expires_at\<close>.
\<close>

theorem confirm_after_expiry:
  "status_of scenario_pending 10 = [Pending]
   \<and> map expires_at (bookings scenario_pending) = [900]
   \<and> snd (InitiatePaymentView_create True 900 22 202 7 10 Razorpay (Some ''order_3'') scenario_pending)
       = Inr (Response 400 ''Booking has expired'')
   \<and> status_of (fst (InitiatePaymentView_create True 900 22 202 7 10 Razorpay (Some ''order_3'')
                        scenario_pending)) 10
       = [Expired]
   \<and> snd (ConfirmPaymentView_update True 900 7 10 200 ''pay_1'' True scenario_pending)
       = Inr (Response 200 ''Payment confirmed successfully'')
   \<and> status_of (fst (ConfirmPaymentView_update True 900 7 10 200 ''pay_1'' True scenario_pending)) 10
       = [Confirmed]
   \<and> snd (ConfirmPaymentView_update False 900 7 10 200 ''pay_1'' True scenario_pending)
       = Inr (Response 200 ''Payment confirmed successfully'')
   \<and> status_of (fst (ConfirmPaymentView_update False 900 7 10 200 ''pay_1'' True scenario_pending)) 10
       = [Confirmed]"
  by code_simp

text \<open>
  C3. The claim fails on the history. Confirming the same verified transaction a
  second time answers 200 and the booking stays confirmed, but the view appends one
  more entry "pending to confirmed" and queues one more confirmation: two entries after
  the second call without the receivers, and with them two after the first call (the
  receiver's and the view's) and three after the second.
\<close>

theorem confirm_twice_history:
  "(let d1 = fst (ConfirmPaymentView_update False 600 7 10 200 ''pay_1'' True scenario_pending);
        r2 = ConfirmPaymentView_update False 700 7 10 200 ''pay_1'' True d1
    in status_of d1 10 = [Confirmed]
       \<and> count_history d1 10 (Some Pending) Confirmed = 1
       \<and> snd r2 = Inr (Response 200 ''Payment confirmed successfully'')
       \<and> status_of (fst r2) 10 = [Confirmed]
       \<and> count_history (fst r2) 10 (Some Pending) Confirmed = 2
       \<and> outbox (fst r2) = [Send_booking_confirmation 10, Send_booking_confirmation 10])
   \<and> (let d1 = fst (ConfirmPaymentView_update True 600 7 10 200 ''pay_1'' True scenario_pending);
          r2 = ConfirmPaymentView_update True 700 7 10 200 ''pay_1'' True d1
      in status_of d1 10 = [Confirmed]
         \<and> count_history d1 10 (Some Pending) Confirmed = 2
         \<and> snd r2 = Inr (Response 200 ''Payment confirmed successfully'')
         \<and> status_of (fst r2) 10 = [Confirmed]
         \<and> count_history (fst r2) 10 (Some Pending) Confirmed = 3)"
  by code_simp

lemma cancel_never_refunds:
  "refunds (fst (CancelBookingView_update sig now new_refund user bid why d)) = refunds d"
  by (simp add: CancelBookingView_update_def Let_def split_beta split: sum.splits)

text \<open>
  C4. The claim fails on the refund. The booking of the scenario is confirmed and has
  a successful transaction; a refundable policy applies 27 hours before the show.
  Cancelling answers 200, sets the booking cancelled with \<^verbatim>\<open>cancelled_at\<close>, frees its
  seats and writes a "cancelled" entry (two with the receivers connected), but no
  refund row exists afterwards and no \<^verbatim>\<open>process_refund\<close> task is queued: the test on
  line 313 reads the status the view has just set to cancelled.
\<close>

theorem cancel_paid_no_refund:
  "success_count scenario_paid 10 = 1
   \<and> (let r = CancelBookingView_update False 1000 30 7 10 ''change of plans'' scenario_paid
      in snd r = Inr (Response 200 ''Booking cancelled successfully'')
         \<and> status_of (fst r) 10 = [Cancelled]
         \<and> map cancelled_at (bookings (fst r)) = [Some 1000]
         \<and> map is_available (seats (fst r)) = [True, True, True]
         \<and> count_history_to (fst r) 10 Cancelled = 1
         \<and> refunds (fst r) = []
         \<and> outbox (fst r) = [Send_booking_confirmation 10, Send_cancellation_confirmation 10])
   \<and> (let r = CancelBookingView_update True 1000 30 7 10 ''change of plans'' scenario_paid
      in snd r = Inr (Response 200 ''Booking cancelled successfully'')
         \<and> status_of (fst r) 10 = [Cancelled]
         \<and> count_history_to (fst r) 10 Cancelled = 2
         \<and> refunds (fst r) = []
         \<and> outbox (fst r) = [Send_booking_confirmation 10, Send_cancellation_confirmation 10])"
  by code_simp

lemma extend_timer_never_already_extended:
  "snd (extend_booking_timer sig now user bid d)
     \<noteq> Inr (Response 400 ''Booking timer can only be extended once'')"
  by (simp add: extend_booking_timer_def hasattr_def from_row_def Let_def split_beta
      split: sum.splits)

text \<open>
  C6. The claim fails on "at most once". The deadline of the scenario's booking is
  second 900. An extension at second 840 (60 seconds left) succeeds and moves the
  deadline to 1440, as the claim says, and one more second later a call is refused
  as too early. At second 1380 (again 60 seconds left) a further extension succeeds
  and moves the deadline to 1980: the mark \<^verbatim>\<open>_timer_extended\<close> of the first request is
  not on the instance of the next one.
\<close>

theorem extend_timer_twice:
  "(let r1 = extend_booking_timer False 840 7 10 scenario_pending;
        r2 = extend_booking_timer False 841 7 10 (fst r1);
        r3 = extend_booking_timer False 1380 7 10 (fst r1)
    in map expires_at (bookings scenario_pending) = [900]
       \<and> snd r1 = Inr (Response 200 ''Booking timer extended successfully'')
       \<and> map expires_at (bookings (fst r1)) = [1440]
       \<and> snd r2 = Inr (Response 400
                     ''Timer extension only available when booking is about to expire'')
       \<and> snd r3 = Inr (Response 200 ''Booking timer extended successfully'')
       \<and> map expires_at (bookings (fst r3)) = [1980])
   \<and> (let r1 = extend_booking_timer True 840 7 10 scenario_pending;
          r3 = extend_booking_timer True 1380 7 10 (fst r1)
      in snd r1 = Inr (Response 200 ''Booking timer extended successfully'')
         \<and> snd r3 = Inr (Response 200 ''Booking timer extended successfully'')
         \<and> map expires_at (bookings (fst r3)) = [1980])"
  by code_simp

text \<open>
  C7. The claim fails: a booking can have two successful transactions. Two payment
  initiations for the held, pending booking each answer 500 (the gateway data cannot
  be stored) and each leave an initiated transaction behind, transactions 200 and
  201 of the scenario. A verified confirmation of transaction 200 answers 200 and
  confirms the booking; a verified confirmation of transaction 201 then answers 200
  as well, and both transactions are in status success, with the receivers connected
  or not: \<^verbatim>\<open>ConfirmPaymentView.update\<close> reads neither the booking's status nor the other
  transactions of the booking.
\<close>

theorem two_transactions_succeed:
  "(let i1 = InitiatePaymentView_create False 100 20 200 7 10 Razorpay (Some ''order_1'')
               scenario_held;
        i2 = InitiatePaymentView_create False 200 21 201 7 10 Razorpay (Some ''order_2'') (fst i1)
    in snd i1 = Inr (Response 500 ''Payment initiation failed. Please try again.'')
       \<and> snd i2 = Inr (Response 500 ''Payment initiation failed. Please try again.'')
       \<and> fst i2 = scenario_pending)
   \<and> (let i1 = InitiatePaymentView_create True 100 20 200 7 10 Razorpay (Some ''order_1'')
                 scenario_held;
          i2 = InitiatePaymentView_create True 200 21 201 7 10 Razorpay (Some ''order_2'') (fst i1)
      in fst i2 = scenario_pending)
   \<and> success_count scenario_pending 10 = 0
   \<and> (let c1 = ConfirmPaymentView_update False 600 7 10 200 ''pay_1'' True scenario_pending;
          c2 = ConfirmPaymentView_update False 650 7 10 201 ''pay_2'' True (fst c1)
      in snd c1 = Inr (Response 200 ''Payment confirmed successfully'')
         \<and> status_of (fst c1) 10 = [Confirmed]
         \<and> success_count (fst c1) 10 = 1
         \<and> snd c2 = Inr (Response 200 ''Payment confirmed successfully'')
         \<and> map txn_status (transactions (fst c2)) = [TxSuccess, TxSuccess]
         \<and> success_count (fst c2) 10 = 2)
   \<and> (let c1 = ConfirmPaymentView_update True 600 7 10 200 ''pay_1'' True scenario_pending;
          c2 = ConfirmPaymentView_update True 650 7 10 201 ''pay_2'' True (fst c1)
      in snd c2 = Inr (Response 200 ''Payment confirmed successfully'')
         \<and> map txn_status (transactions (fst c2)) = [TxSuccess, TxSuccess]
         \<and> success_count (fst c2) 10 = 2)"
  by code_simp

end
